theory Spec2Isabelle
  imports Complex_Main "HOL-Library.Sublist" "HOL-Library.Char_ord" "HOL-Library.List_Lexorder"
begin

section \<open>Text: characters and strings\<close>

text \<open>
  Python strings are modelled as \<^typ>\<open>string\<close>. The character classes below are those
  of Python 3 on code points below 128: \<open>str.lower\<close>, the regular-expression classes
  \<open>\w\<close> and \<open>\s\<close>, and the whitespace of \<open>str.strip\<close> (which is the class \<open>\s\<close>).
  A character of code 128 or more stands for a piece of a non-ASCII letter: it has no
  case, it is a word character and it is not whitespace.
\<close>

definition is_upper :: "char \<Rightarrow> bool" where
  "is_upper c = (c \<in> set ''ABCDEFGHIJKLMNOPQRSTUVWXYZ'')"

definition is_lower :: "char \<Rightarrow> bool" where
  "is_lower c = (c \<in> set ''abcdefghijklmnopqrstuvwxyz'')"

definition is_digit :: "char \<Rightarrow> bool" where
  "is_digit c = (c \<in> set ''0123456789'')"

definition lower_char :: "char \<Rightarrow> char" where
  "lower_char c =
     (case map_of (zip ''ABCDEFGHIJKLMNOPQRSTUVWXYZ'' ''abcdefghijklmnopqrstuvwxyz'') c of
        Some l \<Rightarrow> l
      | None \<Rightarrow> c)"

definition lower :: "string \<Rightarrow> string" where
  "lower s = map lower_char s"



definition is_space :: "char \<Rightarrow> bool" where
  "is_space c =
     (c \<in> {CHR 0x09, CHR 0x0A, CHR 0x0B, CHR 0x0C, CHR 0x0D,
            CHR 0x1C, CHR 0x1D, CHR 0x1E, CHR 0x1F, CHR 0x20})"

definition is_word :: "char \<Rightarrow> bool" where
  "is_word c =
     (is_upper c \<or> is_lower c \<or> is_digit c \<or> c = CHR ''_'' \<or> 128 \<le> (of_char c :: nat))"

text \<open>\<open>a in b\<close> on two strings: \<open>a\<close> occurs in \<open>b\<close> as a contiguous piece.\<close>

definition str_in :: "string \<Rightarrow> string \<Rightarrow> bool" where
  "str_in a b = sublist a b"

text \<open>
  \<open>s.strip()\<close> (and its right half, \<open>s.rstrip()\<close>), \<open>s.endswith(t)\<close> and the slice
  \<open>s[:-n]\<close> for \<open>n > 0\<close>.
\<close>

definition strip :: "string \<Rightarrow> string" where
  "strip s = rev (dropWhile is_space (rev (dropWhile is_space s)))"


definition endswith :: "string \<Rightarrow> string \<Rightarrow> bool" where
  "endswith s t = suffix t s"

definition drop_last :: "nat \<Rightarrow> string \<Rightarrow> string" where
  "drop_last n s = take (length s - n) s"

text \<open>\<open>sep.join(xs)\<close>.\<close>

fun join :: "string \<Rightarrow> string list \<Rightarrow> string" where
  "join sep [] = []"
| "join sep [x] = x"
| "join sep (x # y # ys) = x @ sep @ join sep (y # ys)"

section \<open>utils.py: the ingredient matcher\<close>

subsection \<open>normalize_ingredient\<close>

text \<open>
  \<open>re.sub(r'[^\w\s]', '', name)\<close> deletes every character that is neither a word
  character nor whitespace; \<open>re.sub(r'\s+', ' ', name)\<close> replaces every maximal run of
  whitespace by one space.
\<close>

definition sub_non_word_space :: "string \<Rightarrow> string" where
  "sub_non_word_space s = filter (\<lambda>c. is_word c \<or> is_space c) s"

function sub_space_runs :: "string \<Rightarrow> string" where
  "sub_space_runs [] = []"
| "sub_space_runs (c # cs) =
     (if is_space c then CHR '' '' # sub_space_runs (dropWhile is_space cs)
      else c # sub_space_runs cs)"
  by pat_completeness auto
termination
  by (relation "measure length") (auto simp: less_Suc_eq_le length_dropWhile_le)

definition normalize_ingredient :: "string \<Rightarrow> string" where
  "normalize_ingredient name =
     (if name = [] then []
      else
        let name1 = lower name;
            name2 = sub_non_word_space name1;
            name3 = strip (sub_space_runs name2)
        in if endswith name3 ''es'' then drop_last 2 name3
           else if endswith name3 ''s'' then drop_last 1 name3
           else name3)"

subsection \<open>find_missing_ingredients\<close>

record SpoonacularIngredient =
  si_id :: int
  si_amount :: real
  si_unit :: string
  si_name :: string
  si_original :: string

text \<open>
  The set comprehension over the owned names: entries that are \<open>None\<close> or empty are left
  out, the others are normalised, duplicates collapse. The set is kept as a list without
  duplicates; the loop over it only asks whether some element matches, so the order in
  which Python iterates the set does not show in the result.
\<close>

definition normalized_user_ingredients :: "string option list \<Rightarrow> string list" where
  "normalized_user_ingredients user_ingredients =
     remdups (map normalize_ingredient
       (concat (map (\<lambda>ing. case ing of None \<Rightarrow> [] | Some s \<Rightarrow> (if s = [] then [] else [s]))
          user_ingredients)))"

fun partial_match :: "string \<Rightarrow> string list \<Rightarrow> bool" where
  "partial_match normalized_req [] = False"
| "partial_match normalized_req (user_ing_norm # rest) =
     (if user_ing_norm = [] then partial_match normalized_req rest
      else if str_in normalized_req user_ing_norm \<or> str_in user_ing_norm normalized_req then True
      else partial_match normalized_req rest)"

definition found :: "string \<Rightarrow> string list \<Rightarrow> bool" where
  "found normalized_req users =
     (if normalized_req \<in> set users then True else partial_match normalized_req users)"

fun missing_loop :: "SpoonacularIngredient option list \<Rightarrow> string list \<Rightarrow> SpoonacularIngredient list" where
  "missing_loop [] users = []"
| "missing_loop (None # reqs) users = missing_loop reqs users"
| "missing_loop (Some req_ing # reqs) users =
     (if si_name req_ing = [] then missing_loop reqs users
      else
        let normalized_req = normalize_ingredient (si_name req_ing)
        in if normalized_req = [] then missing_loop reqs users
           else if found normalized_req users then missing_loop reqs users
           else req_ing # missing_loop reqs users)"

definition find_missing_ingredients ::
  "SpoonacularIngredient option list \<Rightarrow> string option list \<Rightarrow> SpoonacularIngredient list" where
  "find_missing_ingredients required_ingredients user_ingredients =
     missing_loop required_ingredients (normalized_user_ingredients user_ingredients)"

subsection \<open>The matcher in the specification's words\<close>







text \<open>
  An owned entry satisfies a normalised required name when the entry is present and not
  empty, its normalised form is not empty, and one of the two normalised strings occurs in
  the other (which covers equality).
\<close>

definition satisfies :: "string \<Rightarrow> string option \<Rightarrow> bool" where
  "satisfies normalized_req owned_entry =
     (case owned_entry of
        None \<Rightarrow> False
      | Some s \<Rightarrow>
          s \<noteq> [] \<and> normalize_ingredient s \<noteq> [] \<and>
          (normalized_req = normalize_ingredient s \<or>
           str_in normalized_req (normalize_ingredient s) \<or>
           str_in (normalize_ingredient s) normalized_req))"

definition satisfied :: "string \<Rightarrow> string option list \<Rightarrow> bool" where
  "satisfied normalized_req owned = list_ex (satisfies normalized_req) owned"

text \<open>The required entries that are present, in their order.\<close>

definition present :: "'a option list \<Rightarrow> 'a list" where
  "present xs = concat (map (\<lambda>x. case x of None \<Rightarrow> [] | Some v \<Rightarrow> [v]) xs)"

definition unsatisfied_required ::
  "SpoonacularIngredient option list \<Rightarrow> string option list \<Rightarrow> SpoonacularIngredient list" where
  "unsatisfied_required required owned =
     filter (\<lambda>r. normalize_ingredient (si_name r) \<noteq> [] \<and>
                 \<not> satisfied (normalize_ingredient (si_name r)) owned)
       (present required)"

text \<open>
  The same two notions read literally: a required ingredient counts as soon as its name is
  not empty, and an owned normalised form counts even when it is empty.
\<close>

definition satisfies_literal :: "string \<Rightarrow> string option \<Rightarrow> bool" where
  "satisfies_literal normalized_req owned_entry =
     (case owned_entry of
        None \<Rightarrow> False
      | Some s \<Rightarrow>
          s \<noteq> [] \<and>
          (normalized_req = normalize_ingredient s \<or>
           str_in normalized_req (normalize_ingredient s) \<or>
           str_in (normalize_ingredient s) normalized_req))"

definition unsatisfied_required_literal ::
  "SpoonacularIngredient option list \<Rightarrow> string option list \<Rightarrow> SpoonacularIngredient list" where
  "unsatisfied_required_literal required owned =
     filter (\<lambda>r. si_name r \<noteq> [] \<and>
                 \<not> list_ex (satisfies_literal (normalize_ingredient (si_name r))) owned)
       (present required)"

definition with_nonempty_names :: "SpoonacularIngredient option list \<Rightarrow> SpoonacularIngredient list" where
  "with_nonempty_names required = filter (\<lambda>r. si_name r \<noteq> []) (present required)"

definition with_nonempty_normalized_names ::
  "SpoonacularIngredient option list \<Rightarrow> SpoonacularIngredient list" where
  "with_nonempty_normalized_names required =
     filter (\<lambda>r. normalize_ingredient (si_name r) \<noteq> []) (present required)"

definition named_entry :: "SpoonacularIngredient option \<Rightarrow> bool" where
  "named_entry r = (case r of None \<Rightarrow> False | Some i \<Rightarrow> si_name i \<noteq> [])"

definition nonempty_entry :: "string option \<Rightarrow> bool" where
  "nonempty_entry x = (case x of None \<Rightarrow> False | Some s \<Rightarrow> s \<noteq> [])"

text \<open>An ingredient that carries only a name, for the examples.\<close>

definition named :: "string \<Rightarrow> SpoonacularIngredient" where
  "named n = \<lparr>si_id = 1, si_amount = 1, si_unit = ''piece'', si_name = n, si_original = n\<rparr>"

section \<open>action.py: the fallback generator\<close>

record IngredientDetail =
  d_id :: "int option"
  d_name :: string
  d_amount :: "real option"
  d_unit :: "string option"
  is_estimate :: "bool option"

text \<open>
  The constructor call \<open>IngredientDetail(name=n, amount=a, unit=u, is_estimate=e)\<close>: the
  \<open>id\<close> keeps its default \<open>None\<close>.
\<close>

definition estimate_detail :: "string \<Rightarrow> real \<Rightarrow> string \<Rightarrow> bool \<Rightarrow> IngredientDetail" where
  "estimate_detail n a u e =
     \<lparr>d_id = None, d_name = n, d_amount = Some a, d_unit = Some u, is_estimate = Some e\<rparr>"

definition generate_fallback_ingredients :: "string \<Rightarrow> IngredientDetail list" where
  "generate_fallback_ingredients recipe_title =
     (let title = (if recipe_title \<noteq> [] then lower recipe_title else []);
          fallback_ingredients =
            [estimate_detail ''(Estimate) Salt'' 1 ''tsp'' True,
             estimate_detail ''(Estimate) Pepper'' 0.5 ''tsp'' True,
             estimate_detail ''(Estimate) Cooking Oil'' 1 ''tbsp'' True]
      in if str_in ''pasta'' title \<or> str_in ''spaghetti'' title \<or> str_in ''lasagna'' title
            \<or> str_in ''macaroni'' title
         then fallback_ingredients @
            [estimate_detail ''(Estimate) Pasta'' 8 ''oz'' True,
             estimate_detail ''(Estimate) Tomato Sauce'' 1 ''can'' True]
         else if str_in ''chicken'' title
         then fallback_ingredients @ [estimate_detail ''(Estimate) Chicken'' 1 ''lb'' True]
         else if str_in ''salad'' title
         then fallback_ingredients @
            [estimate_detail ''(Estimate) Lettuce'' 1 ''head'' True,
             estimate_detail ''(Estimate) Vinaigrette'' 2 ''tbsp'' True]
         else if str_in ''soup'' title
         then fallback_ingredients @ [estimate_detail ''(Estimate) Broth'' 4 ''cups'' True]
         else fallback_ingredients)"

subsection \<open>The generator in the specification's words\<close>

definition base_estimates :: "IngredientDetail list" where
  "base_estimates =
     [estimate_detail ''(Estimate) Salt'' 1 ''tsp'' True,
      estimate_detail ''(Estimate) Pepper'' 0.5 ''tsp'' True,
      estimate_detail ''(Estimate) Cooking Oil'' 1 ''tbsp'' True]"

datatype category = Pasta | Chicken | Salad | Soup

text \<open>A title mentions a keyword when the keyword occurs in it, whatever the case of the title.\<close>

definition mentions :: "string \<Rightarrow> string \<Rightarrow> bool" where
  "mentions title keyword = str_in keyword (lower title)"

definition category_of :: "string \<Rightarrow> category option" where
  "category_of title =
     (if list_ex (mentions title) [''pasta'', ''spaghetti'', ''lasagna'', ''macaroni''] then Some Pasta
      else if mentions title ''chicken'' then Some Chicken
      else if mentions title ''salad'' then Some Salad
      else if mentions title ''soup'' then Some Soup
      else None)"

fun category_addition :: "category option \<Rightarrow> IngredientDetail list" where
  "category_addition (Some Pasta) =
     [estimate_detail ''(Estimate) Pasta'' 8 ''oz'' True,
      estimate_detail ''(Estimate) Tomato Sauce'' 1 ''can'' True]"
| "category_addition (Some Chicken) = [estimate_detail ''(Estimate) Chicken'' 1 ''lb'' True]"
| "category_addition (Some Salad) =
     [estimate_detail ''(Estimate) Lettuce'' 1 ''head'' True,
      estimate_detail ''(Estimate) Vinaigrette'' 2 ''tbsp'' True]"
| "category_addition (Some Soup) = [estimate_detail ''(Estimate) Broth'' 4 ''cups'' True]"
| "category_addition None = []"

section \<open>Python values, exceptions and the HTTP client\<close>

text \<open>
  The values the backend handles: what \<open>response.json()\<close> returns (JSON), and lists in
  which the items of \<open>extendedIngredients\<close> have been replaced by validated
  \<open>SpoonacularIngredient\<close> objects. A \<open>PDict\<close> lists the items of a dictionary, each key
  once.
\<close>

datatype pyval =
    PNone
  | PBool bool
  | PInt int
  | PFloat real
  | PStr string
  | PList "pyval list"
  | PDict "(string \<times> pyval) list"
  | PIngredient SpoonacularIngredient

text \<open>
  The exception classes the handlers tell apart. \<open>RequestsJSONDecodeError\<close> is the error
  \<open>response.json()\<close> raises in recent versions of the HTTP library, which is both a
  \<open>RequestException\<close> and a \<open>json.JSONDecodeError\<close>; \<open>JSONDecodeError\<close> is the one older
  versions raise, which is only the latter. \<open>HTTPError\<close>, connection errors and timeouts
  are all caught as \<open>RequestException\<close>.
\<close>

datatype exc_class =
    RequestException
  | RequestsJSONDecodeError
  | JSONDecodeError
  | KeyError
  | IndexError
  | TypeError
  | AttributeError
  | ValidationError
  | OtherException

record response =
  status_code :: int
  reason :: string
  url :: string
  body_text :: string
  body_json :: "(exc_class \<times> string) + pyval"

text \<open>An exception: its class, \<open>str(e)\<close>, and \<open>e.response\<close> where it has one.\<close>

datatype pyexc = PyExc (exc_class: exc_class) (exc_text: string) (exc_response: "response option")

definition is_request_exception :: "pyexc \<Rightarrow> bool" where
  "is_request_exception e = (exc_class e = RequestException \<or> exc_class e = RequestsJSONDecodeError)"

definition is_json_decode_error :: "exc_class \<Rightarrow> bool" where
  "is_json_decode_error c = (c = RequestsJSONDecodeError \<or> c = JSONDecodeError)"

fun truthy :: "pyval \<Rightarrow> bool" where
  "truthy PNone = False"
| "truthy (PBool b) = b"
| "truthy (PInt i) = (i \<noteq> 0)"
| "truthy (PFloat x) = (x \<noteq> 0)"
| "truthy (PStr s) = (s \<noteq> [])"
| "truthy (PList xs) = (xs \<noteq> [])"
| "truthy (PDict kvs) = (kvs \<noteq> [])"
| "truthy (PIngredient i) = True"

fun type_name :: "pyval \<Rightarrow> string" where
  "type_name PNone = ''NoneType''"
| "type_name (PBool b) = ''bool''"
| "type_name (PInt i) = ''int''"
| "type_name (PFloat x) = ''float''"
| "type_name (PStr s) = ''str''"
| "type_name (PList xs) = ''list''"
| "type_name (PDict kvs) = ''dict''"
| "type_name (PIngredient i) = ''SpoonacularIngredient''"

text \<open>\<open>str(n)\<close> for an integer.\<close>

function str_nat :: "nat \<Rightarrow> string" where
  "str_nat n = (if n < 10 then [''0123456789'' ! n] else str_nat (n div 10) @ [''0123456789'' ! (n mod 10)])"
  by pat_completeness auto
termination
  by (relation "measure id") auto

definition str_int :: "int \<Rightarrow> string" where
  "str_int i = (if i < 0 then CHR ''-'' # str_nat (nat (- i)) else str_nat (nat i))"

text \<open>
  \<open>v.get(key, default)\<close>, \<open>v[key]\<close> for a string key, \<open>v[0]\<close>, \<open>key in v\<close> for a string
  key, and the items a \<open>for\<close> loop over \<open>v\<close> visits. Each fails as Python does on a value
  of the wrong type.
\<close>

definition py_get :: "pyval \<Rightarrow> string \<Rightarrow> pyval \<Rightarrow> pyexc + pyval" where
  "py_get v key dflt =
     (case v of
        PDict kvs \<Rightarrow> Inr (case map_of kvs key of Some x \<Rightarrow> x | None \<Rightarrow> dflt)
      | _ \<Rightarrow> Inl (PyExc AttributeError
                 ([CHR 0x27] @ type_name v @ [CHR 0x27] @ '' object has no attribute '' @
                  [CHR 0x27] @ ''get'' @ [CHR 0x27]) None))"

definition py_item :: "pyval \<Rightarrow> string \<Rightarrow> pyexc + pyval" where
  "py_item v key =
     (case v of
        PDict kvs \<Rightarrow>
          (case map_of kvs key of
             Some x \<Rightarrow> Inr x
           | None \<Rightarrow> Inl (PyExc KeyError ([CHR 0x27] @ key @ [CHR 0x27]) None))
      | PList xs \<Rightarrow> Inl (PyExc TypeError ''list indices must be integers or slices, not str'' None)
      | PStr s \<Rightarrow> Inl (PyExc TypeError ''string indices must be integers'' None)
      | _ \<Rightarrow> Inl (PyExc TypeError
                 ([CHR 0x27] @ type_name v @ [CHR 0x27] @ '' object is not subscriptable'') None))"

definition py_first :: "pyval \<Rightarrow> pyexc + pyval" where
  "py_first v =
     (case v of
        PList xs \<Rightarrow>
          (case xs of
             [] \<Rightarrow> Inl (PyExc IndexError ''list index out of range'' None)
           | x # _ \<Rightarrow> Inr x)
      | PStr s \<Rightarrow>
          (case s of
             [] \<Rightarrow> Inl (PyExc IndexError ''string index out of range'' None)
           | c # _ \<Rightarrow> Inr (PStr [c]))
      | PDict kvs \<Rightarrow> Inl (PyExc KeyError ''0'' None)
      | _ \<Rightarrow> Inl (PyExc TypeError
                 ([CHR 0x27] @ type_name v @ [CHR 0x27] @ '' object is not subscriptable'') None))"

definition py_contains :: "string \<Rightarrow> pyval \<Rightarrow> pyexc + bool" where
  "py_contains key v =
     (case v of
        PDict kvs \<Rightarrow> Inr (key \<in> set (map fst kvs))
      | PList xs \<Rightarrow> Inr (PStr key \<in> set xs)
      | PStr s \<Rightarrow> Inr (str_in key s)
      | PIngredient i \<Rightarrow> Inr False
      | _ \<Rightarrow> Inl (PyExc TypeError
                 (''argument of type '' @ [CHR 0x27] @ type_name v @ [CHR 0x27] @ '' is not iterable'')
                 None))"

definition py_iter :: "pyval \<Rightarrow> pyexc + pyval list" where
  "py_iter v =
     (case v of
        PList xs \<Rightarrow> Inr xs
      | PDict kvs \<Rightarrow> Inr (map (\<lambda>kv. PStr (fst kv)) kvs)
      | PStr s \<Rightarrow> Inr (map (\<lambda>c. PStr [c]) s)
      | _ \<Rightarrow> Inl (PyExc TypeError
                 ([CHR 0x27] @ type_name v @ [CHR 0x27] @ '' object is not iterable'') None))"

text \<open>
  What the library does outside this repository is a parameter of the model: how Python
  prints a value that is not a string, and how the pydantic models validate their
  arguments (an ingredient from the keyword arguments \<open>**ing\<close>; a recipe summary from its
  five arguments).
\<close>

record RecipeSummary =
  rs_id :: int
  rs_title :: string
  rs_image :: "string option"
  usedIngredientCount :: "int option"
  missedIngredientCount :: "int option"

record pylib =
  py_repr :: "pyval \<Rightarrow> string"
  new_ingredient :: "pyval \<Rightarrow> pyexc + SpoonacularIngredient"
  new_summary :: "pyval \<Rightarrow> pyval \<Rightarrow> pyval \<Rightarrow> pyval \<Rightarrow> pyval \<Rightarrow> pyexc + RecipeSummary"

text \<open>A value inside an f-string or \<open>str.format\<close>: a string stands for itself.\<close>

definition py_str :: "pylib \<Rightarrow> pyval \<Rightarrow> string" where
  "py_str lib v = (case v of PStr s \<Rightarrow> s | _ \<Rightarrow> py_repr lib v)"

text \<open>
  One call of the HTTP library either returns a response or raises. The provider and the
  network are an oracle: \<open>srv i\<close> is the outcome of the \<open>i\<close>-th call (from 0) that one
  invocation of a retry wrapper makes. The request itself only travels to the provider
  and is left out. The state records the calls made and the waits slept, in seconds.
\<close>

datatype http_outcome = Responds response | Raises pyexc

record io =
  calls :: nat
  slept :: "real list"

definition io_start :: io where
  "io_start = \<lparr>calls = 0, slept = []\<rparr>"

text \<open>\<open>response.raise_for_status()\<close>: an \<open>HTTPError\<close> for a status from 400 to 599.\<close>

definition raise_for_status :: "response \<Rightarrow> pyexc option" where
  "raise_for_status r =
     (if 400 \<le> status_code r \<and> status_code r < 500 then
        Some (PyExc RequestException
          (str_int (status_code r) @ '' Client Error: '' @ reason r @ '' for url: '' @ url r) (Some r))
      else if 500 \<le> status_code r \<and> status_code r < 600 then
        Some (PyExc RequestException
          (str_int (status_code r) @ '' Server Error: '' @ reason r @ '' for url: '' @ url r) (Some r))
      else None)"

section \<open>memory.py: constants, credentials and error messages\<close>

definition MAX_LLM_RETRIES :: nat where
  "MAX_LLM_RETRIES = 2"

definition MAX_API_RETRIES :: nat where
  "MAX_API_RETRIES = 1"

definition ERROR_MESSAGES :: "(string \<times> string) list" where
  "ERROR_MESSAGES =
     [(''MISSING_API_KEY'', ''{} API key not configured in backend environment.''),
      (''SPOONACULAR_ERROR'', ''Error communicating with Spoonacular: {}''),
      (''GEMINI_ERROR'', ''Error communicating with Gemini API: {}''),
      (''TELEGRAM_ERROR'', ''Error sending Telegram message: {}''),
      (''SENDGRID_ERROR'', ''Error sending email via SendGrid: {}''),
      (''INVALID_INPUT'', ''Invalid input provided: {}''),
      (''NOT_FOUND'', ''Resource not found: {}''),
      (''GENERAL_ERROR'', ''An unexpected backend error occurred: {}''),
      (''LLM_FAILURE'', ''LLM analysis failed: {}''),
      (''INGREDIENT_COMPARISON_FAILED'', ''Failed to compare ingredients.'')]"

text \<open>The table of credentials, as it stands after start-up.\<close>

record api_keys =
  spoonacular :: "string option"
  gemini :: "string option"
  telegram_bot :: "string option"
  sendgrid :: "string option"
  sendgrid_sender :: "string option"

text \<open>The test \<open>if not api_key\<close>: a credential is missing when it is \<open>None\<close> or empty.\<close>

definition configured :: "string option \<Rightarrow> bool" where
  "configured k = (case k of None \<Rightarrow> False | Some s \<Rightarrow> s \<noteq> [])"

text \<open>
  \<open>message.format(detail)\<close> for the templates of the table, which have at most one
  placeholder: the first \<open>{}\<close> is replaced by the detail.
\<close>

fun format1 :: "string \<Rightarrow> string \<Rightarrow> string" where
  "format1 [] d = []"
| "format1 [c] d = [c]"
| "format1 (a # b # cs) d =
     (if a = CHR ''{'' \<and> b = CHR ''}'' then d @ cs else a # format1 (b # cs) d)"

definition error_template :: "string \<Rightarrow> string" where
  "error_template key =
     (case map_of ERROR_MESSAGES key of
        Some m \<Rightarrow> m
      | None \<Rightarrow> ''An unexpected backend error occurred: {}'')"

definition get_error_message :: "string \<Rightarrow> string \<Rightarrow> string" where
  "get_error_message key detail =
     (let message = error_template key
      in if detail \<noteq> [] then format1 message detail else message)"

text \<open>The same call when the detail is a value that need not be a string.\<close>

definition get_error_message_val :: "pylib \<Rightarrow> string \<Rightarrow> pyval \<Rightarrow> string" where
  "get_error_message_val lib key detail =
     (let message = error_template key
      in if truthy detail then format1 message (py_str lib detail) else message)"

section \<open>The two retry wrappers\<close>

subsection \<open>action.py: the wrapper of the recipe and delivery calls\<close>

text \<open>
  One pass through the body of the \<open>try\<close>: the call, then \<open>raise_for_status\<close>.
\<close>

definition request_attempt :: "http_outcome \<Rightarrow> pyexc + response" where
  "request_attempt out =
     (case out of
        Raises e \<Rightarrow> Inl e
      | Responds r \<Rightarrow> (case raise_for_status r of Some e \<Rightarrow> Inl e | None \<Rightarrow> Inr r))"

text \<open>
  The \<open>while\<close> loop, with the retry ceiling as a parameter; the source reads it from the
  constant \<open>MAX_API_RETRIES\<close>. The result is \<open>Inr\<close> the response returned or \<open>Inl\<close> the
  exception that leaves the function. An exception that is not a \<open>RequestException\<close>
  is not caught and leaves at once.
\<close>

function make_request_loop ::
  "nat \<Rightarrow> (nat \<Rightarrow> http_outcome) \<Rightarrow> nat \<Rightarrow> pyexc option \<Rightarrow> io \<Rightarrow> (pyexc + response) \<times> io" where
  "make_request_loop max_retries srv retries last_exception s =
     (if retries \<le> max_retries then
        (case request_attempt (srv (calls s)) of
           Inr r \<Rightarrow> (Inr r, s\<lparr>calls := calls s + 1\<rparr>)
         | Inl e \<Rightarrow>
             if is_request_exception e then
               (if retries + 1 > max_retries then (Inl e, s\<lparr>calls := calls s + 1\<rparr>)
                else make_request_loop max_retries srv (retries + 1) (Some e)
                       (s\<lparr>calls := calls s + 1,
                          slept := slept s @ [2 ^ (retries + 1 - 1) * 0.5]\<rparr>))
             else (Inl e, s\<lparr>calls := calls s + 1\<rparr>))
      else
        (Inl (case last_exception of
                Some e \<Rightarrow> e
              | None \<Rightarrow> PyExc OtherException
                         (''Request failed after '' @ str_nat max_retries @ '' retries'') None),
         s))"
  by pat_completeness auto
termination
  by (relation "measure (\<lambda>(max_retries, srv, retries, last_exception, s). max_retries + 1 - retries)")
     auto

definition make_request_with_retry :: "(nat \<Rightarrow> http_outcome) \<Rightarrow> (pyexc + response) \<times> io" where
  "make_request_with_retry srv = make_request_loop MAX_API_RETRIES srv 0 None io_start"

subsection \<open>perception.py: the wrapper of the reasoning calls\<close>

text \<open>The dictionary \<open>{"error": {"message": m}}\<close> the wrapper returns instead of raising.\<close>

definition error_dict :: "string \<Rightarrow> pyval" where
  "error_dict m = PDict [(''error'', PDict [(''message'', PStr m)])]"

text \<open>
  One pass through the body of the \<open>try\<close>: the call, then the inspection of the response.
  The result is \<open>Inr\<close> the data returned or \<open>Inl\<close> the exception raised inside the \<open>try\<close>.
\<close>

definition gemini_attempt :: "pylib \<Rightarrow> http_outcome \<Rightarrow> pyexc + pyval" where
  "gemini_attempt lib out =
     (case out of
        Raises e \<Rightarrow> Inl e
      | Responds r \<Rightarrow>
          if status_code r = 200 then
            (case body_json r of
               Inl (c, t) \<Rightarrow> Inl (PyExc c t None)
             | Inr response_data \<Rightarrow>
                 (case py_get response_data ''promptFeedback'' (PDict []) of
                    Inl e \<Rightarrow> Inl e
                  | Inr feedback \<Rightarrow>
                      (case py_get feedback ''blockReason'' PNone of
                         Inl e \<Rightarrow> Inl e
                       | Inr block \<Rightarrow>
                           if truthy block then
                             (case py_get feedback ''safetyRatings'' (PList []) of
                                Inl e \<Rightarrow> Inl e
                              | Inr ratings \<Rightarrow>
                                  Inl (PyExc OtherException
                                    (''Gemini request blocked due to: '' @ py_str lib block @
                                     ''. Ratings: '' @ py_str lib ratings) None))
                           else
                             (case py_get response_data ''candidates'' PNone of
                                Inl e \<Rightarrow> Inl e
                              | Inr candidates \<Rightarrow>
                                  if \<not> truthy candidates then
                                    Inl (PyExc OtherException
                                      ''Gemini response missing candidates.'' None)
                                  else Inr response_data))))
          else
            (let error_details = ''Status '' @ str_int (status_code r)
             in case body_json r of
                  Inl (c, t) \<Rightarrow>
                    if is_json_decode_error c then
                      Inl (PyExc RequestException (error_details @ '': '' @ body_text r) (Some r))
                    else Inl (PyExc c t None)
                | Inr error_json \<Rightarrow>
                    (case py_get error_json ''error'' (PDict []) of
                       Inl e \<Rightarrow> Inl e
                     | Inr err \<Rightarrow>
                         (case py_get err ''message'' (PStr (body_text r)) of
                            Inl e \<Rightarrow> Inl e
                          | Inr m \<Rightarrow>
                              Inl (PyExc RequestException
                                (error_details @ '': '' @ py_str lib m) (Some r))))))"

text \<open>
  The \<open>while\<close> loop, with the retry ceiling as a parameter; the source reads it from the
  constant \<open>MAX_LLM_RETRIES\<close>. The function never raises: it returns the response data or
  an error dictionary.
\<close>

function call_gemini_loop ::
  "pylib \<Rightarrow> nat \<Rightarrow> (nat \<Rightarrow> http_outcome) \<Rightarrow> nat \<Rightarrow> pyexc option \<Rightarrow> io \<Rightarrow> pyval \<times> io" where
  "call_gemini_loop lib max_retries srv retries last_exception s =
     (if retries \<le> max_retries then
        (case gemini_attempt lib (srv (calls s)) of
           Inr response_data \<Rightarrow> (response_data, s\<lparr>calls := calls s + 1\<rparr>)
         | Inl e \<Rightarrow>
             if is_request_exception e then
               (if retries + 1 > max_retries then
                  (error_dict (''LLM API failed after retries: '' @ exc_text e),
                   s\<lparr>calls := calls s + 1\<rparr>)
                else call_gemini_loop lib max_retries srv (retries + 1) (Some e)
                       (s\<lparr>calls := calls s + 1,
                          slept := slept s @ [2 ^ (retries + 1 - 1) * 1.0]\<rparr>))
             else (error_dict (''LLM call failed: '' @ exc_text e), s\<lparr>calls := calls s + 1\<rparr>))
      else
        (error_dict (''LLM API failed after '' @ str_nat max_retries @ '' retries: '' @
           (case last_exception of Some e \<Rightarrow> exc_text e | None \<Rightarrow> ''None'')),
         s))"
  by pat_completeness auto
termination
  by (relation "measure (\<lambda>(lib, max_retries, srv, retries, last_exception, s). max_retries + 1 - retries)")
     auto

definition call_gemini_api_with_retry :: "pylib \<Rightarrow> (nat \<Rightarrow> http_outcome) \<Rightarrow> pyval \<times> io" where
  "call_gemini_api_with_retry lib srv = call_gemini_loop lib MAX_LLM_RETRIES srv 0 None io_start"

subsection \<open>The vocabulary of the retry contract\<close>

text \<open>
  An attempt fails transiently when the body of the \<open>try\<close> raises a \<open>RequestException\<close>:
  these are the failures a wrapper retries. The waits before the attempts \<open>2, 3, \<dots>\<close>
  of a run of \<open>n + 1\<close> attempts are \<open>base * 2 ^ (attempt - 1)\<close> for \<open>attempt = 1, \<dots>, n\<close>.
\<close>

definition fails_transiently :: "http_outcome \<Rightarrow> bool" where
  "fails_transiently out =
     (case request_attempt out of Inl e \<Rightarrow> is_request_exception e | Inr r \<Rightarrow> False)"

definition gemini_fails_transiently :: "pylib \<Rightarrow> http_outcome \<Rightarrow> bool" where
  "gemini_fails_transiently lib out =
     (case gemini_attempt lib out of Inl e \<Rightarrow> is_request_exception e | Inr d \<Rightarrow> False)"

definition backoff :: "real \<Rightarrow> nat \<Rightarrow> real list" where
  "backoff base n = map (\<lambda>attempt. base * 2 ^ (attempt - 1)) [1..<n + 1]"

text \<open>A library for the examples, and a provider that never answers.\<close>

definition plain_lib :: pylib where
  "plain_lib =
     \<lparr>py_repr = (\<lambda>v. ''<'' @ type_name v @ ''>''),
      new_ingredient = (\<lambda>v. Inl (PyExc ValidationError ''validation error'' None)),
      new_summary = (\<lambda>i t g u m. Inl (PyExc ValidationError ''validation error'' None))\<rparr>"

definition timeout :: pyexc where
  "timeout = PyExc RequestException ''timed out'' None"

definition down :: "nat \<Rightarrow> http_outcome" where
  "down i = Raises timeout"

definition ok_response :: response where
  "ok_response =
     \<lparr>status_code = 200, reason = ''OK'', url = ''https://provider.example/'',
      body_text = ''[]'', body_json = Inr (PList [])\<rparr>"

text \<open>A provider that times out once and then answers.\<close>

definition flaky :: "nat \<Rightarrow> http_outcome" where
  "flaky i = (if i < 1 then Raises timeout else Responds ok_response)"

section \<open>action.py: the gateways\<close>

text \<open>
  Every gateway returns a dictionary with two fixed keys, kept as a record. The gateways
  are functions of the credentials and of the provider's behaviour; what they send only
  travels to the provider.
\<close>

record api_result =
  data :: pyval
  api_error :: "string option"

record send_result =
  success :: bool
  message :: string

text \<open>
  \<open>getattr(e.response, 'status_code', 500) if hasattr(e, 'response') else 500\<close> for a
  \<open>RequestException\<close>, which always has the attribute \<open>response\<close>, possibly \<open>None\<close>.
\<close>

definition error_status :: "pyexc \<Rightarrow> int" where
  "error_status e = (case exc_response e of Some r \<Rightarrow> status_code r | None \<Rightarrow> 500)"

subsection \<open>fetch_spoonacular_recipes\<close>

text \<open>The two \<open>except\<close> clauses, for an exception raised inside the \<open>try\<close>.\<close>

definition recipes_failure :: "pyexc \<Rightarrow> api_result" where
  "recipes_failure e =
     (if is_request_exception e then
        (let status = error_status e;
             error_detail = ''Status '' @ str_int status @ '': '' @ exc_text e;
             error_detail =
               (if status = 401 \<or> status = 403 then ''Authentication failed (Invalid API Key?)''
                else if status = 429 then ''API rate limit exceeded''
                else error_detail)
         in \<lparr>data = PNone, api_error = Some (get_error_message ''SPOONACULAR_ERROR'' error_detail)\<rparr>)
      else \<lparr>data = PNone, api_error = Some (get_error_message ''GENERAL_ERROR'' (exc_text e))\<rparr>)"

definition fetch_spoonacular_recipes :: "api_keys \<Rightarrow> (nat \<Rightarrow> http_outcome) \<Rightarrow> api_result" where
  "fetch_spoonacular_recipes keys srv =
     (if \<not> configured (spoonacular keys) then
        \<lparr>data = PNone, api_error = Some (get_error_message ''MISSING_API_KEY'' ''Spoonacular'')\<rparr>
      else
        (case fst (make_request_with_retry srv) of
           Inl e \<Rightarrow> recipes_failure e
         | Inr r \<Rightarrow>
             (case body_json r of
                Inl (c, t) \<Rightarrow> recipes_failure (PyExc c t None)
              | Inr v \<Rightarrow> \<lparr>data = v, api_error = None\<rparr>)))"

subsection \<open>fetch_spoonacular_details\<close>

definition details_failure :: "int \<Rightarrow> pyexc \<Rightarrow> api_result" where
  "details_failure recipe_id e =
     (if is_request_exception e then
        (let status = error_status e;
             error_detail = ''Status '' @ str_int status @ '': '' @ exc_text e;
             error_detail =
               (if status = 401 \<or> status = 403 then ''Authentication failed (Invalid API Key?)''
                else if status = 404 then ''Recipe ID '' @ str_int recipe_id @ '' not found''
                else if status = 429 then ''API rate limit exceeded''
                else error_detail)
         in \<lparr>data = PNone, api_error = Some (get_error_message ''SPOONACULAR_ERROR'' error_detail)\<rparr>)
      else \<lparr>data = PNone, api_error = Some (get_error_message ''GENERAL_ERROR'' (exc_text e))\<rparr>)"

text \<open>The list comprehension \<open>[SpoonacularIngredient(**ing) for ing in items]\<close>.\<close>

fun construct_all :: "pylib \<Rightarrow> pyval list \<Rightarrow> pyexc + SpoonacularIngredient list" where
  "construct_all lib [] = Inr []"
| "construct_all lib (ing # rest) =
     (case new_ingredient lib ing of
        Inl e \<Rightarrow> Inl e
      | Inr i \<Rightarrow> (case construct_all lib rest of Inl e \<Rightarrow> Inl e | Inr is \<Rightarrow> Inr (i # is)))"

text \<open>\<open>d[key] = v\<close> on the items of a dictionary.\<close>

fun set_item :: "(string \<times> pyval) list \<Rightarrow> string \<Rightarrow> pyval \<Rightarrow> (string \<times> pyval) list" where
  "set_item [] key v = [(key, v)]"
| "set_item ((k, x) # kvs) key v = (if k = key then (k, v) # kvs else (k, x) # set_item kvs key v)"

text \<open>
  The inner \<open>try\<close>, entered when \<open>extendedIngredients\<close> is in the recipe data: the items
  are replaced by validated objects, and any failure leaves the raw data as they are.
\<close>

definition validate_ingredients :: "pylib \<Rightarrow> pyval \<Rightarrow> pyval" where
  "validate_ingredients lib recipe_data =
     (case py_get recipe_data ''extendedIngredients'' (PList []) of
        Inl e \<Rightarrow> recipe_data
      | Inr v \<Rightarrow>
          (case py_iter v of
             Inl e \<Rightarrow> recipe_data
           | Inr items \<Rightarrow>
               (case construct_all lib items of
                  Inl e \<Rightarrow> recipe_data
                | Inr ings \<Rightarrow>
                    (case recipe_data of
                       PDict kvs \<Rightarrow>
                         PDict (set_item kvs ''extendedIngredients'' (PList (map PIngredient ings)))
                     | _ \<Rightarrow> recipe_data))))"

definition fetch_spoonacular_details ::
  "pylib \<Rightarrow> api_keys \<Rightarrow> (nat \<Rightarrow> http_outcome) \<Rightarrow> int \<Rightarrow> api_result" where
  "fetch_spoonacular_details lib keys srv recipe_id =
     (if \<not> configured (spoonacular keys) then
        \<lparr>data = PNone, api_error = Some (get_error_message ''MISSING_API_KEY'' ''Spoonacular'')\<rparr>
      else
        (case fst (make_request_with_retry srv) of
           Inl e \<Rightarrow> details_failure recipe_id e
         | Inr r \<Rightarrow>
             (case body_json r of
                Inl (c, t) \<Rightarrow> details_failure recipe_id (PyExc c t None)
              | Inr recipe_data \<Rightarrow>
                  (case py_contains ''extendedIngredients'' recipe_data of
                     Inl e \<Rightarrow> details_failure recipe_id e
                   | Inr has \<Rightarrow>
                       \<lparr>data = (if has then validate_ingredients lib recipe_data else recipe_data),
                        api_error = None\<rparr>))))"

subsection \<open>send_telegram_message\<close>

text \<open>\<open>v == n\<close> for an integer literal \<open>n\<close>.\<close>

definition py_eq_int :: "pyval \<Rightarrow> int \<Rightarrow> bool" where
  "py_eq_int v n =
     (case v of
        PInt i \<Rightarrow> i = n
      | PFloat x \<Rightarrow> x = of_int n
      | PBool b \<Rightarrow> (if b then n = 1 else n = 0)
      | _ \<Rightarrow> False)"

definition telegram_failure :: "pyexc \<Rightarrow> send_result" where
  "telegram_failure e =
     (if is_request_exception e then
        (let status = error_status e;
             error_detail = ''Status '' @ str_int status @ '': '' @ exc_text e;
             error_detail =
               (if status = 401 \<or> status = 403 then ''Authentication failed (Invalid Bot Token?)''
                else error_detail)
         in \<lparr>success = False, message = get_error_message ''TELEGRAM_ERROR'' error_detail\<rparr>)
      else \<lparr>success = False, message = get_error_message ''GENERAL_ERROR'' (exc_text e)\<rparr>)"

text \<open>
  The \<open>else\<close> branch, taken when the payload does not report \<open>ok\<close>. The payload is a
  dictionary there. The result is \<open>Inr\<close> the specific error or \<open>Inl\<close> the exception a
  substring test raises on a description that is not a string.
\<close>

definition telegram_specific_error :: "pyval \<Rightarrow> string \<Rightarrow> pyexc + pyval" where
  "telegram_specific_error response_data chat_id =
     (case py_get response_data ''description'' (PStr ''Unknown Telegram error'') of
        Inl e \<Rightarrow> Inl e
      | Inr error_desc \<Rightarrow>
          (case py_get response_data ''error_code'' PNone of
             Inl e \<Rightarrow> Inl e
           | Inr error_code \<Rightarrow>
               (case (if py_eq_int error_code 400 then py_contains ''chat not found'' error_desc
                      else Inr False) of
                  Inl e \<Rightarrow> Inl e
                | Inr chat_not_found \<Rightarrow>
                    if chat_not_found then
                      Inr (PStr (''Chat ID '' @ [CHR 0x27] @ chat_id @ [CHR 0x27] @
                                 '' not found or invalid.''))
                    else
                      (case (if py_eq_int error_code 403
                             then py_contains ''bot was blocked'' error_desc
                             else Inr False) of
                         Inl e \<Rightarrow> Inl e
                       | Inr blocked \<Rightarrow>
                           if blocked then Inr (PStr ''Bot was blocked by the user.'')
                           else Inr error_desc))))"

definition send_telegram_message ::
  "pylib \<Rightarrow> api_keys \<Rightarrow> (nat \<Rightarrow> http_outcome) \<Rightarrow> string \<Rightarrow> send_result" where
  "send_telegram_message lib keys srv chat_id =
     (if \<not> configured (telegram_bot keys) then
        \<lparr>success = False, message = get_error_message ''MISSING_API_KEY'' ''Telegram Bot''\<rparr>
      else
        (case fst (make_request_with_retry srv) of
           Inl e \<Rightarrow> telegram_failure e
         | Inr r \<Rightarrow>
             (case body_json r of
                Inl (c, t) \<Rightarrow> telegram_failure (PyExc c t None)
              | Inr response_data \<Rightarrow>
                  (case py_get response_data ''ok'' PNone of
                     Inl e \<Rightarrow> telegram_failure e
                   | Inr ok \<Rightarrow>
                       if truthy ok then
                         \<lparr>success = True,
                          message = ''Shopping list sent successfully via Telegram!''\<rparr>
                       else
                         (case telegram_specific_error response_data chat_id of
                            Inl e \<Rightarrow> telegram_failure e
                          | Inr specific_error \<Rightarrow>
                              \<lparr>success = False,
                               message = get_error_message_val lib ''TELEGRAM_ERROR'' specific_error\<rparr>)))))"

subsection \<open>send_sendgrid_email\<close>

definition sendgrid_failure :: "pyexc \<Rightarrow> send_result" where
  "sendgrid_failure e =
     (if is_request_exception e then
        (let status = error_status e;
             error_detail = ''Status '' @ str_int status @ '': '' @ exc_text e;
             error_detail =
               (if status = 401 \<or> status = 403
                then ''Authentication failed (Invalid API Key or Permissions?)''
                else error_detail)
         in \<lparr>success = False, message = get_error_message ''SENDGRID_ERROR'' error_detail\<rparr>)
      else \<lparr>success = False, message = get_error_message ''GENERAL_ERROR'' (exc_text e)\<rparr>)"

text \<open>
  The list comprehension \<open>[e.get('message', '') for e in errors]\<close>, and the strings a
  \<open>join\<close> accepts: it raises a \<open>TypeError\<close> on an item that is not a string.
\<close>

fun error_messages :: "pyval list \<Rightarrow> pyexc + pyval list" where
  "error_messages [] = Inr []"
| "error_messages (e # rest) =
     (case py_get e ''message'' (PStr []) of
        Inl x \<Rightarrow> Inl x
      | Inr m \<Rightarrow> (case error_messages rest of Inl x \<Rightarrow> Inl x | Inr ms \<Rightarrow> Inr (m # ms)))"

fun all_strings :: "pyval list \<Rightarrow> string list option" where
  "all_strings [] = Some []"
| "all_strings (PStr s # rest) = (case all_strings rest of None \<Rightarrow> None | Some ss \<Rightarrow> Some (s # ss))"
| "all_strings (v # rest) = None"

text \<open>
  The detail of a response whose status is not 202: the status, unless the body is JSON
  with a list of errors, in which case the detail comes from their messages. The inner
  \<open>try\<close> swallows every exception and keeps the detail assigned so far.
\<close>

definition sendgrid_error_detail :: "response \<Rightarrow> string \<Rightarrow> string \<Rightarrow> string" where
  "sendgrid_error_detail r to_email sender_email =
     (let error_detail = ''SendGrid returned status '' @ str_int (status_code r)
      in case body_json r of
           Inl x \<Rightarrow> error_detail
         | Inr error_data \<Rightarrow>
             (case py_get error_data ''errors'' PNone of
                Inl x \<Rightarrow> error_detail
              | Inr errors \<Rightarrow>
                  if \<not> truthy errors then error_detail
                  else
                    (case py_iter errors of
                       Inl x \<Rightarrow> error_detail
                     | Inr items \<Rightarrow>
                         (case error_messages items of
                            Inl x \<Rightarrow> error_detail
                          | Inr ms \<Rightarrow>
                              (case all_strings ms of
                                 None \<Rightarrow> error_detail
                               | Some messages \<Rightarrow>
                                   if list_ex (str_in ''valid email address'') messages then
                                     ''Invalid recipient email format '' @ [CHR 0x27] @ to_email @
                                     [CHR 0x27] @ ''.''
                                   else if list_ex (\<lambda>msg. str_in ''permission'' msg \<or>
                                             str_in ''authenticate'' msg \<or>
                                             str_in ''verified sender'' msg) messages then
                                     ''Sender email '' @ [CHR 0x27] @ sender_email @ [CHR 0x27] @
                                     '' might not be verified or have sending permissions in SendGrid.''
                                   else ''SendGrid Error(s): '' @ join ''; '' messages)))))"

definition send_sendgrid_email ::
  "api_keys \<Rightarrow> (nat \<Rightarrow> http_outcome) \<Rightarrow> string \<Rightarrow> send_result" where
  "send_sendgrid_email keys srv to_email =
     (if \<not> configured (sendgrid keys) then
        \<lparr>success = False, message = get_error_message ''MISSING_API_KEY'' ''SendGrid''\<rparr>
      else if \<not> configured (sendgrid_sender keys) then
        \<lparr>success = False,
         message = ''SendGrid sender email not configured in backend environment.''\<rparr>
      else
        (case fst (make_request_with_retry srv) of
           Inl e \<Rightarrow> sendgrid_failure e
         | Inr r \<Rightarrow>
             if status_code r = 202 then
               \<lparr>success = True, message = ''Shopping list sent successfully via Email!''\<rparr>
             else
               \<lparr>success = False,
                message = get_error_message ''SENDGRID_ERROR''
                  (sendgrid_error_detail r to_email (the (sendgrid_sender keys)))\<rparr>))"

subsection \<open>The vocabulary of the delivery criteria\<close>

text \<open>
  The payload of a response reports success when it is a JSON dictionary whose \<open>ok\<close>
  entry is true. A provider is steady when it answers every attempt with the same
  response.
\<close>

definition payload_ok :: "response \<Rightarrow> bool" where
  "payload_ok r =
     (case body_json r of
        Inr (PDict kvs) \<Rightarrow> (case map_of kvs ''ok'' of Some v \<Rightarrow> truthy v | None \<Rightarrow> False)
      | _ \<Rightarrow> False)"

definition http_error_status :: "response \<Rightarrow> bool" where
  "http_error_status r = (400 \<le> status_code r \<and> status_code r < 600)"

definition steady :: "response \<Rightarrow> nat \<Rightarrow> http_outcome" where
  "steady r i = Responds r"

text \<open>
  What the inspection of the body yields. A body that lists errors is a JSON dictionary
  whose \<open>errors\<close> entry is a list of dictionaries, each with a \<open>message\<close>; the detail
  read from the messages is a fixed text when one of them speaks of the address or of
  the sender, and the messages themselves otherwise.
\<close>

definition errors_payload :: "string list \<Rightarrow> pyval" where
  "errors_payload ms = PDict [(''errors'', PList (map (\<lambda>m. PDict [(''message'', PStr m)]) ms))]"

definition detail_of_messages :: "string list \<Rightarrow> string \<Rightarrow> string \<Rightarrow> string" where
  "detail_of_messages ms to_email sender_email =
     (if list_ex (str_in ''valid email address'') ms then
        ''Invalid recipient email format '' @ [CHR 0x27] @ to_email @ [CHR 0x27] @ ''.''
      else if list_ex (\<lambda>msg. str_in ''permission'' msg \<or> str_in ''authenticate'' msg \<or>
                          str_in ''verified sender'' msg) ms then
        ''Sender email '' @ [CHR 0x27] @ sender_email @ [CHR 0x27] @
        '' might not be verified or have sending permissions in SendGrid.''
      else ''SendGrid Error(s): '' @ join ''; '' ms)"

text \<open>Credentials, responses and a payload for the examples.\<close>

definition all_keys :: api_keys where
  "all_keys =
     \<lparr>spoonacular = Some ''k1'', gemini = Some ''k2'', telegram_bot = Some ''k3'',
      sendgrid = Some ''k4'', sendgrid_sender = Some ''bot@example.com''\<rparr>"

definition json_response :: "int \<Rightarrow> pyval \<Rightarrow> response" where
  "json_response status v =
     \<lparr>status_code = status, reason = ''-'', url = ''https://provider.example/'',
      body_text = ''-'', body_json = Inr v\<rparr>"

definition ok_payload :: pyval where
  "ok_payload = PDict [(''ok'', PBool True)]"

section \<open>decision_making.py: the pipelines\<close>

text \<open>
  The result of the reasoning gateway is an input of the pipelines: they read its error,
  the errors of its metadata and its prompt, and pass the metadata on. The recipe
  provider is reached through the gateways above.
\<close>

record LLMMetadata =
  selfCheck :: string
  reasoningTypes :: "string list"
  uncertainties :: string
  errors :: string

record LLMAnalysisResult =
  response_text :: pyval
  metadata :: LLMMetadata
  llm_error :: "string option"
  final_retry_count :: int
  prompt :: "string option"

subsection \<open>process_find_recipes\<close>

record FindRecipesRequest =
  ingredients :: string
  foodType :: "string option"
  cuisine :: "string option"

record FindRecipesResponse =
  recipes :: "RecipeSummary list option"
  fr_error :: "string option"
  fr_llm_prompt :: "string option"
  fr_metadata :: "LLMMetadata option"

text \<open>
  The body of the loop over the provider's items: the five arguments are evaluated from
  left to right, then the model validates them.
\<close>

definition summary_of_item :: "pylib \<Rightarrow> pyval \<Rightarrow> pyexc + RecipeSummary" where
  "summary_of_item lib item =
     (case py_item item ''id'' of
        Inl e \<Rightarrow> Inl e
      | Inr i \<Rightarrow>
          (case py_item item ''title'' of
             Inl e \<Rightarrow> Inl e
           | Inr t \<Rightarrow>
               (case py_get item ''image'' PNone of
                  Inl e \<Rightarrow> Inl e
                | Inr g \<Rightarrow>
                    (case py_get item ''usedIngredientCount'' (PInt 0) of
                       Inl e \<Rightarrow> Inl e
                     | Inr u \<Rightarrow>
                         (case py_get item ''missedIngredientCount'' (PInt 0) of
                            Inl e \<Rightarrow> Inl e
                          | Inr m \<Rightarrow> new_summary lib i t g u m)))))"

fun summaries :: "pylib \<Rightarrow> pyval list \<Rightarrow> pyexc + RecipeSummary list" where
  "summaries lib [] = Inr []"
| "summaries lib (item # rest) =
     (case summary_of_item lib item of
        Inl e \<Rightarrow> Inl e
      | Inr r \<Rightarrow> (case summaries lib rest of Inl e \<Rightarrow> Inl e | Inr rs \<Rightarrow> Inr (r # rs)))"

text \<open>The test \<open>if api_result["error"]\<close> on an optional string.\<close>

definition has_error :: "string option \<Rightarrow> bool" where
  "has_error e = (case e of None \<Rightarrow> False | Some s \<Rightarrow> s \<noteq> [])"

definition process_find_recipes ::
  "pylib \<Rightarrow> api_keys \<Rightarrow> LLMAnalysisResult \<Rightarrow> (nat \<Rightarrow> http_outcome) \<Rightarrow> FindRecipesRequest
     \<Rightarrow> FindRecipesResponse" where
  "process_find_recipes lib keys llm_result srv request =
     (if (case llm_error llm_result of
            None \<Rightarrow> False
          | Some e \<Rightarrow> e \<noteq> [] \<and> str_in ''LLM identified issues'' e) \<and>
         str_in ''Invalid ingredients'' (errors (metadata llm_result))
      then
        \<lparr>recipes = None,
         fr_error = Some (''Invalid ingredients detected: '' @ errors (metadata llm_result)),
         fr_llm_prompt = prompt llm_result,
         fr_metadata = Some (metadata llm_result)\<rparr>
      else
        (let api_result = fetch_spoonacular_recipes keys srv;
             failed = (\<lambda>e. \<lparr>recipes = None,
                             fr_error = Some (''Error processing recipe data: '' @ exc_text e),
                             fr_llm_prompt = prompt llm_result,
                             fr_metadata = Some (metadata llm_result)\<rparr>);
             done = (\<lambda>rs. \<lparr>recipes = Some rs,
                            fr_error =
                              (if rs \<noteq> [] then None
                               else Some ''No recipes found matching your ingredients and preferences.''),
                            fr_llm_prompt = prompt llm_result,
                            fr_metadata = Some (metadata llm_result)\<rparr>)
         in if has_error (api_error api_result) then
              \<lparr>recipes = None,
               fr_error = api_error api_result,
               fr_llm_prompt = prompt llm_result,
               fr_metadata = Some (metadata llm_result)\<rparr>
            else if truthy (data api_result) then
              (case py_iter (data api_result) of
                 Inl e \<Rightarrow> failed e
               | Inr items \<Rightarrow>
                   (case summaries lib items of Inl e \<Rightarrow> failed e | Inr rs \<Rightarrow> done rs))
            else done []))"

subsection \<open>process_get_missing_ingredients\<close>

record GetMissingIngredientsRequest =
  recipeId :: int
  recipeTitle :: string
  userIngredients :: "string list"

record GetMissingIngredientsResponse =
  missingIngredients :: "IngredientDetail list option"
  isEstimate :: bool
  gm_error :: "string option"
  gm_llm_prompt :: "string option"
  gm_metadata :: "LLMMetadata option"

definition is_ingredient :: "pyval \<Rightarrow> bool" where
  "is_ingredient v = (case v of PIngredient i \<Rightarrow> True | _ \<Rightarrow> False)"

text \<open>
  The body of the \<open>try\<close> that extracts the required ingredients: \<open>Inr\<close> the value bound to
  \<open>required_ingredients\<close>, or \<open>Inl\<close> the exception raised.
\<close>

definition extract_required :: "pylib \<Rightarrow> pyval \<Rightarrow> pyexc + pyval" where
  "extract_required lib recipe_data =
     (case py_contains ''extendedIngredients'' recipe_data of
        Inl e \<Rightarrow> Inl e
      | Inr has \<Rightarrow>
          if \<not> has then Inr (PList [])
          else
            (case py_item recipe_data ''extendedIngredients'' of
               Inl e \<Rightarrow> Inl e
             | Inr ext \<Rightarrow>
                 (case py_first ext of
                    Inl e \<Rightarrow> Inl e
                  | Inr first \<Rightarrow>
                      if \<not> is_ingredient first then
                        (case py_iter ext of
                           Inl e \<Rightarrow> Inl e
                         | Inr items \<Rightarrow>
                             (case construct_all lib items of
                                Inl e \<Rightarrow> Inl e
                              | Inr ings \<Rightarrow> Inr (PList (map PIngredient ings))))
                      else Inr ext)))"

text \<open>
  The matcher as the pipeline calls it, on a list whose items need not all be validated
  objects: an item that is not truthy is passed over by the matcher's own test, and any
  other item that is not an ingredient has no \<open>name\<close>, which raises.
\<close>

fun as_required :: "pyval list \<Rightarrow> pyexc + SpoonacularIngredient option list" where
  "as_required [] = Inr []"
| "as_required (v # rest) =
     (case (case v of
              PIngredient i \<Rightarrow> Inr (Some i)
            | _ \<Rightarrow>
                if \<not> truthy v then Inr None
                else Inl (PyExc AttributeError
                       ([CHR 0x27] @ type_name v @ [CHR 0x27] @ '' object has no attribute '' @
                        [CHR 0x27] @ ''name'' @ [CHR 0x27]) None)) of
        Inl e \<Rightarrow> Inl e
      | Inr r \<Rightarrow> (case as_required rest of Inl e \<Rightarrow> Inl e | Inr rs \<Rightarrow> Inr (r # rs)))"

definition find_missing_in :: "pyval \<Rightarrow> string list \<Rightarrow> pyexc + SpoonacularIngredient list" where
  "find_missing_in required_ingredients user_ingredients =
     (case py_iter required_ingredients of
        Inl e \<Rightarrow> Inl e
      | Inr items \<Rightarrow>
          (case as_required items of
             Inl e \<Rightarrow> Inl e
           | Inr reqs \<Rightarrow> Inr (find_missing_ingredients reqs (map Some user_ingredients))))"

definition detail_of :: "SpoonacularIngredient \<Rightarrow> IngredientDetail" where
  "detail_of ing =
     \<lparr>d_id = Some (si_id ing), d_name = si_name ing, d_amount = Some (si_amount ing),
      d_unit = Some (si_unit ing), is_estimate = Some False\<rparr>"

text \<open>
  The pipeline returns \<open>Inr\<close> its response, or \<open>Inl\<close> an exception that nothing in it
  catches.
\<close>

definition process_get_missing_ingredients ::
  "pylib \<Rightarrow> api_keys \<Rightarrow> LLMAnalysisResult \<Rightarrow> (nat \<Rightarrow> http_outcome) \<Rightarrow> GetMissingIngredientsRequest
     \<Rightarrow> pyexc + GetMissingIngredientsResponse" where
  "process_get_missing_ingredients lib keys llm_result srv request =
     (let api_result = fetch_spoonacular_details lib keys srv (recipeId request)
      in if has_error (api_error api_result) then
           Inr \<lparr>missingIngredients = Some (generate_fallback_ingredients (recipeTitle request)),
                isEstimate = True,
                gm_error = Some (''Could not retrieve exact recipe ingredients: '' @
                                 the (api_error api_result)),
                gm_llm_prompt = prompt llm_result,
                gm_metadata = None\<rparr>
         else
           (case extract_required lib (data api_result) of
              Inl e \<Rightarrow>
                Inr \<lparr>missingIngredients = Some (generate_fallback_ingredients (recipeTitle request)),
                     isEstimate = True,
                     gm_error = Some (''Error processing recipe ingredients: '' @ exc_text e),
                     gm_llm_prompt = prompt llm_result,
                     gm_metadata = None\<rparr>
            | Inr required_ingredients \<Rightarrow>
                (case find_missing_in required_ingredients (userIngredients request) of
                   Inl e \<Rightarrow> Inl e
                 | Inr missing_ingredients_raw \<Rightarrow>
                     Inr \<lparr>missingIngredients = Some (map detail_of missing_ingredients_raw),
                          isEstimate = False,
                          gm_error = None,
                          gm_llm_prompt = prompt llm_result,
                          gm_metadata = None\<rparr>)))"

subsection \<open>The vocabulary of the pipeline claims\<close>

text \<open>
  The reasoning result flags invalid ingredients when its error reports issues the model
  identified and the errors of its metadata mention invalid ingredients: the one case in
  which the find-recipes pipeline stops before it calls the provider.
\<close>

definition flags_invalid_ingredients :: "LLMAnalysisResult \<Rightarrow> bool" where
  "flags_invalid_ingredients llm_result =
     ((case llm_error llm_result of
         None \<Rightarrow> False
       | Some e \<Rightarrow> e \<noteq> [] \<and> str_in ''LLM identified issues'' e) \<and>
      str_in ''Invalid ingredients'' (errors (metadata llm_result)))"

text \<open>The response that carries the fallback estimates for a title, with a given error.\<close>

definition fallback_response ::
  "LLMAnalysisResult \<Rightarrow> string \<Rightarrow> string \<Rightarrow> GetMissingIngredientsResponse" where
  "fallback_response llm_result title err =
     \<lparr>missingIngredients = Some (generate_fallback_ingredients title),
      isEstimate = True,
      gm_error = Some err,
      gm_llm_prompt = prompt llm_result,
      gm_metadata = None\<rparr>"

subsection \<open>Inputs for the examples\<close>

definition quiet_llm :: LLMAnalysisResult where
  "quiet_llm =
     \<lparr>response_text = PStr ''Looks fine.'',
      metadata = \<lparr>selfCheck = ''No explicit self-check section found.'', reasoningTypes = [],
                  uncertainties = [], errors = []\<rparr>,
      llm_error = None, final_retry_count = 0, prompt = Some ''prompt''\<rparr>"

definition chicken_rice :: FindRecipesRequest where
  "chicken_rice = \<lparr>ingredients = ''chicken, rice'', foodType = Some ''any'', cuisine = Some ''any''\<rparr>"

definition soup_request :: GetMissingIngredientsRequest where
  "soup_request = \<lparr>recipeId = 7, recipeTitle = ''Tomato Soup'', userIngredients = [''salt'']\<rparr>"

definition no_ingredients :: pyval where
  "no_ingredients = PDict [(''title'', PStr ''Tomato Soup''), (''extendedIngredients'', PList [])]"

section \<open>perception.py: the reasoning gateway\<close>

subsection \<open>The patterns of the metadata extraction\<close>

text \<open>
  All patterns are matched with \<open>re.IGNORECASE\<close>: a literal of a pattern matches a piece
  of text of the same length that is equal to it up to case.
\<close>

definition imatch_prefix :: "string \<Rightarrow> string \<Rightarrow> bool" where
  "imatch_prefix lit s = (lower (take (length lit) s) = lower lit)"

text \<open>
  The pattern \<open>\[TAG:\s*(.*?)\]\<close> tried at the start of a text, where \<open>lit\<close> is the
  literal \<open>[TAG:\<close>. After the literal, \<open>\s*\<close> takes the whole run of whitespace; the
  group then runs up to the first \<open>]\<close>, and since \<open>.\<close> does not match a newline there
  is no match when a newline comes first. Giving back whitespace cannot turn a failure
  into a match, because the group would meet the same newline. The result is the group
  and the text after the match.
\<close>

definition match_tag_at :: "string \<Rightarrow> string \<Rightarrow> (string \<times> string) option" where
  "match_tag_at lit s =
     (if imatch_prefix lit s then
        (let rest = dropWhile is_space (drop (length lit) s);
             body = takeWhile (\<lambda>c. c \<noteq> CHR '']'' \<and> c \<noteq> CHR 0x0A) rest
         in case dropWhile (\<lambda>c. c \<noteq> CHR '']'' \<and> c \<noteq> CHR 0x0A) rest of
              [] \<Rightarrow> None
            | c # tail \<Rightarrow> if c = CHR '']'' then Some (body, tail) else None)
      else None)"

lemma match_tag_at_shorter:
  "match_tag_at lit s = Some (g, tail) \<Longrightarrow> length tail < length s"
proof -
  assume a: "match_tag_at lit s = Some (g, tail)"
  let ?rest = "dropWhile is_space (drop (length lit) s)"
  let ?p = "\<lambda>c. c \<noteq> CHR '']'' \<and> c \<noteq> CHR 0x0A"
  from a obtain c where c: "dropWhile ?p ?rest = c # tail"
    by (auto simp: match_tag_at_def Let_def split: if_splits list.splits)
  have "length (dropWhile ?p ?rest) \<le> length ?rest"
    by (rule length_dropWhile_le)
  moreover have "length ?rest \<le> length (drop (length lit) s)"
    by (rule length_dropWhile_le)
  ultimately show ?thesis
    using c by simp
qed

text \<open>\<open>re.findall\<close> of that pattern: the groups of the successive matches, left to right.\<close>

function findall_tag :: "string \<Rightarrow> string \<Rightarrow> string list" where
  "findall_tag lit [] = []"
| "findall_tag lit (c # cs) =
     (case match_tag_at lit (c # cs) of
        Some (g, tail) \<Rightarrow> g # findall_tag lit tail
      | None \<Rightarrow> findall_tag lit cs)"
  by pat_completeness auto
termination
  by (relation "measure (\<lambda>(lit, s). length s)") (auto dest: match_tag_at_shorter)

text \<open>
  The pattern \<open>\[REASONING TYPE:\s*([A-Z_]+)\]\<close>: after the literal and the whitespace,
  a non-empty run of letters and underscores that a \<open>]\<close> follows at once.
\<close>

definition is_type_char :: "char \<Rightarrow> bool" where
  "is_type_char c = (is_upper c \<or> is_lower c \<or> c = CHR ''_'')"

definition match_type_at :: "string \<Rightarrow> (string \<times> string) option" where
  "match_type_at s =
     (if imatch_prefix ''[REASONING TYPE:'' s then
        (let rest = dropWhile is_space (drop (length ''[REASONING TYPE:'') s);
             body = takeWhile is_type_char rest
         in case dropWhile is_type_char rest of
              [] \<Rightarrow> None
            | c # tail \<Rightarrow> if c = CHR '']'' \<and> body \<noteq> [] then Some (body, tail) else None)
      else None)"

lemma match_type_at_shorter:
  "match_type_at s = Some (g, tail) \<Longrightarrow> length tail < length s"
proof -
  assume a: "match_type_at s = Some (g, tail)"
  let ?rest = "dropWhile is_space (drop (length ''[REASONING TYPE:'') s)"
  from a obtain c where c: "dropWhile is_type_char ?rest = c # tail"
    by (auto simp: match_type_at_def Let_def split: if_splits list.splits)
  have "length (dropWhile is_type_char ?rest) \<le> length ?rest"
    by (rule length_dropWhile_le)
  moreover have "length ?rest \<le> length (drop (length ''[REASONING TYPE:'') s)"
    by (rule length_dropWhile_le)
  ultimately show ?thesis
    using c by simp
qed

function findall_types :: "string \<Rightarrow> string list" where
  "findall_types [] = []"
| "findall_types (c # cs) =
     (case match_type_at (c # cs) of
        Some (g, tail) \<Rightarrow> g # findall_types tail
      | None \<Rightarrow> findall_types cs)"
  by pat_completeness auto
termination
  by (relation "measure length") (auto dest: match_type_at_shorter)

text \<open>
  The pattern of the self-check section, searched from the left: the marker, an optional
  colon, the whole run of whitespace, then the text up to the first place where two
  newlines, one of three phrases, or the end of the text follows. The end always
  matches, so the first choices of the pattern are never undone.
\<close>

fun after_self_check :: "string \<Rightarrow> string option" where
  "after_self_check [] = None"
| "after_self_check (c # cs) =
     (if imatch_prefix ''SELF-CHECK'' (c # cs) then Some (drop (length ''SELF-CHECK'') (c # cs))
      else after_self_check cs)"

definition at_terminator :: "string \<Rightarrow> bool" where
  "at_terminator s =
     (prefix [CHR 0x0A, CHR 0x0A] s \<or> imatch_prefix ''ERROR HANDLING:'' s \<or>
      imatch_prefix ''Here is the query'' s \<or> imatch_prefix ''Please structure'' s \<or> s = [])"

fun until_terminator :: "string \<Rightarrow> string" where
  "until_terminator [] = []"
| "until_terminator (c # cs) = (if at_terminator (c # cs) then [] else c # until_terminator cs)"

definition self_check_section :: "string \<Rightarrow> string" where
  "self_check_section llm_response =
     (case after_self_check llm_response of
        None \<Rightarrow> ''No explicit self-check section found.''
      | Some after \<Rightarrow>
          (let after_colon = (case after of
                                [] \<Rightarrow> []
                              | c # rest \<Rightarrow> if c = CHR '':'' then rest else c # rest)
           in strip (until_terminator (dropWhile is_space after_colon))))"

subsection \<open>extract_reasoning_metadata\<close>

text \<open>\<open>LLMMetadata()\<close> with its default fields.\<close>

definition default_metadata :: LLMMetadata where
  "default_metadata =
     \<lparr>selfCheck = ''Not performed'', reasoningTypes = [], uncertainties = [], errors = []\<rparr>"

text \<open>\<open>sorted(list(set(xs)))\<close> on strings, which Python orders by code points.\<close>

definition sorted_set :: "string list \<Rightarrow> string list" where
  "sorted_set xs = sort (remdups xs)"

definition extract_reasoning_metadata :: "pyval \<Rightarrow> LLMMetadata" where
  "extract_reasoning_metadata llm_response =
     (case llm_response of
        PStr text \<Rightarrow>
          (let reasoning_matches = findall_types text;
               uncertainty_matches = findall_tag ''[UNCERTAINTY:'' text;
               error_matches = findall_tag ''[ERROR:'' text;
               preference_errors = filter (\<lambda>e. str_in ''preference'' (lower e)) error_matches;
               preference_uncertainties =
                 filter (\<lambda>u. str_in ''preference'' (lower u) \<or> str_in ''cuisine'' (lower u) \<or>
                             str_in ''food type'' (lower u)) uncertainty_matches
           in \<lparr>selfCheck = self_check_section text,
               reasoningTypes = sorted_set reasoning_matches,
               uncertainties =
                 join ''; '' (sorted_set (map strip uncertainty_matches)) @
                 (if preference_uncertainties \<noteq> []
                  then ''; Preference-related uncertainties: '' @ join ''; '' preference_uncertainties
                  else []),
               errors =
                 join ''; '' (sorted_set (map strip error_matches)) @
                 (if preference_errors \<noteq> []
                  then ''; Preference-related errors: '' @ join ''; '' preference_errors
                  else [])\<rparr>)
      | _ \<Rightarrow> default_metadata\<lparr>selfCheck := ''Invalid input type'', errors := ''Invalid input type''\<rparr>)"

subsection \<open>run_llm_analysis\<close>

text \<open>
  \<open>raw["candidates"][0]["content"]["parts"][0]["text"]\<close>, evaluated from left to right.
\<close>

definition reply_text :: "pyval \<Rightarrow> pyexc + pyval" where
  "reply_text raw =
     (case py_item raw ''candidates'' of
        Inl e \<Rightarrow> Inl e
      | Inr candidates \<Rightarrow>
          (case py_first candidates of
             Inl e \<Rightarrow> Inl e
           | Inr candidate \<Rightarrow>
               (case py_item candidate ''content'' of
                  Inl e \<Rightarrow> Inl e
                | Inr content \<Rightarrow>
                    (case py_item content ''parts'' of
                       Inl e \<Rightarrow> Inl e
                     | Inr parts \<Rightarrow>
                         (case py_first parts of
                            Inl e \<Rightarrow> Inl e
                          | Inr part \<Rightarrow> py_item part ''text'')))))"

text \<open>\<open>LLMAnalysisResult()\<close> with its default fields.\<close>

definition default_result :: LLMAnalysisResult where
  "default_result =
     \<lparr>response_text = PStr [], metadata = default_metadata, llm_error = None,
      final_retry_count = 0, prompt = None\<rparr>"

text \<open>
  The gateway, given the prompt that \<open>build_reasoning_prompt\<close> has built from the query,
  the stage and the context. Writing the log files has no part in the result. The result
  is \<open>Inr\<close> the analysis result, or \<open>Inl\<close> an exception that nothing in the function
  catches.
\<close>

definition run_llm_analysis ::
  "pylib \<Rightarrow> api_keys \<Rightarrow> string \<Rightarrow> (nat \<Rightarrow> http_outcome) \<Rightarrow> pyexc + LLMAnalysisResult" where
  "run_llm_analysis lib keys built_prompt srv =
     (if \<not> configured (gemini keys) then
        Inr (default_result
               \<lparr>llm_error := Some (get_error_message ''MISSING_API_KEY'' ''Gemini''),
                response_text := PStr ''[Fallback due to missing API key]''\<rparr>)
      else
        (let result = default_result\<lparr>prompt := Some built_prompt\<rparr>;
             raw_response_data = fst (call_gemini_api_with_retry lib srv)
         in case py_get raw_response_data ''error'' PNone of
              Inl e \<Rightarrow> Inl e
            | Inr err \<Rightarrow>
                if truthy err then
                  (case py_get err ''message'' (PStr ''Unknown API error'') of
                     Inl e \<Rightarrow> Inl e
                   | Inr m \<Rightarrow>
                       (let error = get_error_message_val lib ''LLM_FAILURE'' m
                        in Inr (result
                                  \<lparr>llm_error := Some error,
                                   response_text :=
                                     PStr (''[Fallback due to LLM API error: '' @ error @ '']'')\<rparr>)))
                else
                  (case reply_text raw_response_data of
                     Inr text \<Rightarrow>
                       (let md = extract_reasoning_metadata text
                        in Inr (result
                                  \<lparr>response_text := text,
                                   metadata := md,
                                   llm_error :=
                                     (if errors md \<noteq> []
                                      then Some (''LLM identified issues: '' @ errors md)
                                      else llm_error result)\<rparr>))
                   | Inl e \<Rightarrow>
                       if exc_class e = KeyError \<or> exc_class e = IndexError \<or>
                          exc_class e = TypeError then
                         (let error = get_error_message ''LLM_FAILURE''
                                        (''Invalid response structure: '' @ exc_text e)
                          in Inr (result
                                    \<lparr>llm_error := Some error,
                                     response_text :=
                                       PStr (''[Fallback due to response parsing error: '' @
                                             error @ '']''),
                                     metadata :=
                                       default_metadata\<lparr>errors := ''Response parsing failed''\<rparr>\<rparr>))
                       else Inl e)))"

subsection \<open>The vocabulary of the promotion claim\<close>

text \<open>
  The error tags the extraction finds in a reply are the groups of
  \<open>findall_tag ''[ERROR:''\<close>, one per tag. A tag is blank when nothing but whitespace
  stands between its colon and its bracket. A reasoning call succeeds with a reply when
  the credential is configured, the wrapper returns data without an \<open>error\<close> entry that
  is true, and the text of the first part of the first candidate is that reply.
\<close>

definition error_tags :: "string \<Rightarrow> string list" where
  "error_tags text = findall_tag ''[ERROR:'' text"

definition has_described_error :: "string \<Rightarrow> bool" where
  "has_described_error text = list_ex (\<lambda>m. strip m \<noteq> []) (error_tags text)"

definition succeeds_with_reply ::
  "pylib \<Rightarrow> api_keys \<Rightarrow> (nat \<Rightarrow> http_outcome) \<Rightarrow> string \<Rightarrow> bool" where
  "succeeds_with_reply lib keys srv text =
     (configured (gemini keys) \<and>
      (case py_get (fst (call_gemini_api_with_retry lib srv)) ''error'' PNone of
         Inl e \<Rightarrow> False
       | Inr err \<Rightarrow> \<not> truthy err) \<and>
      reply_text (fst (call_gemini_api_with_retry lib srv)) = Inr (PStr text))"

text \<open>The payload of a successful reasoning call whose reply is a given text.\<close>

definition gemini_reply :: "string \<Rightarrow> pyval" where
  "gemini_reply text =
     PDict [(''candidates'',
             PList [PDict [(''content'', PDict [(''parts'', PList [PDict [(''text'', PStr text)]])])]])]"

section \<open>Properties of the ingredient matcher\<close>



















lemma partial_match_iff:
  "partial_match n us \<longleftrightarrow> (\<exists>u\<in>set us. u \<noteq> [] \<and> (str_in n u \<or> str_in u n))"
  by (induction us) auto

lemma found_iff:
  "n \<noteq> [] \<Longrightarrow> found n us \<longleftrightarrow> (\<exists>u\<in>set us. u \<noteq> [] \<and> (str_in n u \<or> str_in u n))"
  by (auto simp: found_def partial_match_iff str_in_def)

lemma set_normalized_user_ingredients:
  "set (normalized_user_ingredients owned) =
     {normalize_ingredient s | s. Some s \<in> set owned \<and> s \<noteq> []}"
  by (auto simp: normalized_user_ingredients_def split: option.splits if_splits)

lemma found_satisfied:
  "n \<noteq> [] \<Longrightarrow> found n (normalized_user_ingredients owned) \<longleftrightarrow> satisfied n owned"
  by (auto simp: found_iff set_normalized_user_ingredients satisfied_def satisfies_def
      list_ex_iff str_in_def split: option.splits)

lemma normalize_ingredient_Nil: "normalize_ingredient [] = []"
  by (simp add: normalize_ingredient_def)

lemma missing_loop_filter:
  "missing_loop reqs users =
     filter (\<lambda>r. normalize_ingredient (si_name r) \<noteq> [] \<and>
                 \<not> found (normalize_ingredient (si_name r)) users) (present reqs)"
proof (induction reqs)
  case Nil
  show ?case by (simp add: present_def)
next
  case (Cons r reqs)
  show ?case
  proof (cases r)
    case None
    with Cons show ?thesis by (simp add: present_def)
  next
    case (Some i)
    with Cons show ?thesis
      by (cases "si_name i = []") (auto simp: present_def Let_def normalize_ingredient_Nil)
  qed
qed

lemma find_missing_unsatisfied:
  "find_missing_ingredients required owned = unsatisfied_required required owned"
  unfolding find_missing_ingredients_def unsatisfied_required_def missing_loop_filter
  by (rule filter_cong) (auto simp: found_satisfied)

lemma named_entry_simps:
  "named_entry None = False"
  "named_entry (Some i) = (si_name i \<noteq> [])"
  by (simp_all add: named_entry_def)

lemma missing_loop_named:
  "missing_loop (filter named_entry reqs) users = missing_loop reqs users"
proof (induction reqs)
  case Nil
  show ?case by simp
next
  case (Cons r reqs)
  then show ?case by (cases r) (simp_all add: named_entry_simps Let_def)
qed

lemma normalized_user_ingredients_nonempty:
  "normalized_user_ingredients (filter nonempty_entry owned) = normalized_user_ingredients owned"
proof -
  have "concat (map (\<lambda>ing. case ing of None \<Rightarrow> [] | Some s \<Rightarrow> (if s = [] then [] else [s]))
          (filter nonempty_entry owned)) =
        concat (map (\<lambda>ing. case ing of None \<Rightarrow> [] | Some s \<Rightarrow> (if s = [] then [] else [s])) owned)"
    by (induction owned) (auto simp: nonempty_entry_def split: option.splits)
  then show ?thesis by (simp add: normalized_user_ingredients_def)
qed

text \<open>
  Claim C1, as the code has it. \<open>find_missing_ingredients\<close> returns, in the order of the
  required list, exactly the required ingredients whose normalised name is not empty and
  is not satisfied; a required ingredient is satisfied when some owned entry has a
  non-empty normalised form that equals its normalised name, contains it, or occurs in
  it. In particular a required ingredient is left out of the result whenever one of the
  two normalised strings occurs in the other and the owned one is not empty.
\<close>

theorem find_missing_ingredients_unsatisfied:
  "find_missing_ingredients required owned = unsatisfied_required required owned \<and>
   (\<forall>r s. Some r \<in> set required \<and> Some s \<in> set owned \<and> normalize_ingredient s \<noteq> [] \<and>
      (str_in (normalize_ingredient (si_name r)) (normalize_ingredient s) \<or>
       str_in (normalize_ingredient s) (normalize_ingredient (si_name r)))
      \<longrightarrow> r \<notin> set (find_missing_ingredients required owned))"
proof (intro conjI allI impI)
  show "find_missing_ingredients required owned = unsatisfied_required required owned"
    by (rule find_missing_unsatisfied)
next
  fix r s
  assume a: "Some r \<in> set required \<and> Some s \<in> set owned \<and> normalize_ingredient s \<noteq> [] \<and>
      (str_in (normalize_ingredient (si_name r)) (normalize_ingredient s) \<or>
       str_in (normalize_ingredient s) (normalize_ingredient (si_name r)))"
  then have "s \<noteq> []" by (auto simp: normalize_ingredient_Nil)
  with a have "satisfies (normalize_ingredient (si_name r)) (Some s)"
    by (auto simp: satisfies_def)
  with a have "satisfied (normalize_ingredient (si_name r)) owned"
    by (auto simp: satisfied_def list_ex_iff)
  then show "r \<notin> set (find_missing_ingredients required owned)"
    by (simp add: find_missing_unsatisfied unsatisfied_required_def)
qed

theorem find_missing_ingredients_unsatisfied_witness:
  "find_missing_ingredients
     [Some (named ''Onions''), None, Some (named ''Garlic!''), Some (named ''milk'')]
     [Some ''Red Onion'', Some [], Some ''MILK'']
   = [named ''Garlic!''] \<and>
   named ''Onions'' \<notin> set (find_missing_ingredients
     [Some (named ''Onions''), None, Some (named ''Garlic!''), Some (named ''milk'')]
     [Some ''Red Onion'', Some [], Some ''MILK''])"
proof -
  let ?req = "[Some (named ''Onions''), None, Some (named ''Garlic!''), Some (named ''milk'')]"
  let ?own = "[Some ''Red Onion'', Some [], Some ''MILK'']"
  note t = find_missing_ingredients_unsatisfied[of ?req ?own]
  have u: "unsatisfied_required ?req ?own = [named ''Garlic!'']"
    by code_simp
  have n: "normalize_ingredient ''Red Onion'' \<noteq> []"
    by code_simp
  have s: "str_in (normalize_ingredient (si_name (named ''Onions''))) (normalize_ingredient ''Red Onion'')"
    by code_simp
  have m: "Some (named ''Onions'') \<in> set ?req" "Some ''Red Onion'' \<in> set ?own"
    by simp_all
  from t have "find_missing_ingredients ?req ?own = unsatisfied_required ?req ?own"
    by (rule conjunct1)
  with u have a: "find_missing_ingredients ?req ?own = [named ''Garlic!'']"
    by (simp only:)
  from t m n s have b: "named ''Onions'' \<notin> set (find_missing_ingredients ?req ?own)"
    by blast
  from a b show ?thesis by (rule conjI)
qed

text \<open>
  Read literally, claim C1 fails at two inputs. A required ingredient named \<open>!!!\<close> has a
  non-empty name and nothing satisfies it when nothing is owned, yet it is not returned:
  its normalised name is empty and the loop passes it over. An owned entry \<open>s\<close> has the
  empty normalised form, which occurs in every string, yet a required \<open>onion\<close> is still
  returned: the loop passes empty owned forms over.
\<close>

theorem find_missing_ingredients_literal_counterexample:
  "find_missing_ingredients [Some (named ''!!!'')] [] = [] \<and>
   unsatisfied_required_literal [Some (named ''!!!'')] [] = [named ''!!!''] \<and>
   str_in (normalize_ingredient ''s'') (normalize_ingredient ''onion'') \<and>
   find_missing_ingredients [Some (named ''onion'')] [Some ''s''] = [named ''onion''] \<and>
   unsatisfied_required_literal [Some (named ''onion'')] [Some ''s''] = []"
  by code_simp

text \<open>
  Claim C8, as the code has it. With no required ingredient the result is empty,
  whatever is owned. With nothing owned the result is the required ingredients whose
  normalised name is not empty, in order. Entries that are null or have an empty name,
  in either list, are passed over: leaving them out of the input changes nothing. The
  function has no failing branch: every entry falls under one equation of the loop.
\<close>

theorem find_missing_ingredients_edges:
  "find_missing_ingredients [] owned = [] \<and>
   find_missing_ingredients required [] = with_nonempty_normalized_names required \<and>
   find_missing_ingredients required owned =
     find_missing_ingredients (filter named_entry required) (filter nonempty_entry owned)"
proof (intro conjI)
  show "find_missing_ingredients [] owned = []"
    by (simp add: find_missing_ingredients_def)
next
  have "normalized_user_ingredients [] = []"
    by (simp add: normalized_user_ingredients_def)
  then show "find_missing_ingredients required [] = with_nonempty_normalized_names required"
    by (simp add: find_missing_ingredients_def missing_loop_filter
        with_nonempty_normalized_names_def found_def)
next
  show "find_missing_ingredients required owned =
     find_missing_ingredients (filter named_entry required) (filter nonempty_entry owned)"
    by (simp add: find_missing_ingredients_def missing_loop_named
        normalized_user_ingredients_nonempty)
qed

theorem find_missing_ingredients_edges_witness:
  "find_missing_ingredients [Some (named ''Flour''), None, Some (named []), Some (named ''s'')] []
     = [named ''Flour''] \<and>
   find_missing_ingredients [Some (named ''Flour''), None, Some (named [])] [None, Some [], Some ''Eggs'']
     = find_missing_ingredients [Some (named ''Flour'')] [Some ''Eggs'']"
proof -
  have w: "with_nonempty_normalized_names
             [Some (named ''Flour''), None, Some (named []), Some (named ''s'')] = [named ''Flour'']"
    by code_simp
  have f: "filter named_entry [Some (named ''Flour''), None, Some (named [])] = [Some (named ''Flour'')]"
    by code_simp
  have g: "filter nonempty_entry [None, Some [], Some ''Eggs''] = [Some ''Eggs'']"
    by code_simp
  show ?thesis
    using find_missing_ingredients_edges[of "[None, Some [], Some ''Eggs'']"
            "[Some (named ''Flour''), None, Some (named []), Some (named ''s'')]"]
          find_missing_ingredients_edges[of "[None, Some [], Some ''Eggs'']"
            "[Some (named ''Flour''), None, Some (named [])]"]
          w f g
    by simp
qed

text \<open>
  Read literally, claim C8 fails for a required ingredient named \<open>s\<close> with nothing owned:
  the name is not empty, but its normalised form is, and the ingredient is not returned.
\<close>

theorem find_missing_ingredients_edges_counterexample:
  "with_nonempty_names [Some (named ''s'')] = [named ''s''] \<and>
   find_missing_ingredients [Some (named ''s'')] [] = []"
  by code_simp

section \<open>Properties of the fallback generator\<close>





lemma generate_fallback_eq:
  "generate_fallback_ingredients title = base_estimates @ category_addition (category_of title)"
proof -
  have "(if title \<noteq> [] then lower title else []) = lower title"
    by (simp add: lower_def)
  then show ?thesis
    by (simp add: generate_fallback_ingredients_def category_of_def mentions_def
        base_estimates_def Let_def)
qed





section \<open>Properties of the retry wrappers\<close>

declare make_request_loop.simps [simp del] call_gemini_loop.simps [simp del]

lemma backoff_upt: "map (\<lambda>j. 2 ^ j * base) [0..<n] = backoff base n"
proof -
  have "[1..<n + 1] = map Suc [0..<n]"
    by (simp add: map_Suc_upt)
  then show ?thesis by (simp add: backoff_def comp_def mult.commute)
qed

lemma make_request_loop_bounds:
  "retries \<le> max_retries \<Longrightarrow> calls s = retries \<Longrightarrow>
   retries < calls (snd (make_request_loop max_retries srv retries le s)) \<and>
   calls (snd (make_request_loop max_retries srv retries le s)) \<le> max_retries + 1 \<and>
   slept (snd (make_request_loop max_retries srv retries le s)) =
     slept s @ map (\<lambda>j. 2 ^ j * 0.5)
       [retries ..< calls (snd (make_request_loop max_retries srv retries le s)) - 1]"
proof (induction max_retries srv retries le s rule: make_request_loop.induct)
  case (1 max_retries srv retries le s)
  show ?case
  proof (cases "request_attempt (srv (calls s))")
    case (Inr r)
    with 1(2,3) show ?thesis by (subst (1 2 3 4) make_request_loop.simps) simp
  next
    case (Inl e)
    show ?thesis
    proof (cases "is_request_exception e \<and> retries + 1 \<le> max_retries")
      case False
      with Inl 1(2,3) show ?thesis by (subst (1 2 3 4) make_request_loop.simps) auto
    next
      case True
      let ?s = "s\<lparr>calls := calls s + 1, slept := slept s @ [2 ^ (retries + 1 - 1) * 0.5]\<rparr>"
      have eq: "make_request_loop max_retries srv retries le s =
                make_request_loop max_retries srv (retries + 1) (Some e) ?s"
        using True Inl 1(2) by (subst make_request_loop.simps) simp
      define c where "c = calls (snd (make_request_loop max_retries srv (retries + 1) (Some e) ?s))"
      have IH: "retries + 1 < c \<and> c \<le> max_retries + 1 \<and>
        slept (snd (make_request_loop max_retries srv (retries + 1) (Some e) ?s)) =
          slept ?s @ map (\<lambda>j. 2 ^ j * 0.5) [retries + 1 ..< c - 1]"
        unfolding c_def using "1.IH"[OF 1(2) Inl] True 1(3) by simp
      from IH have "retries + 1 < c" by (rule conjunct1)
      then have "retries < c - 1" by arith
      then have up: "[retries ..< c - 1] = retries # [retries + 1 ..< c - 1]"
        by (simp only: upt_conv_Cons Suc_eq_plus1)
      show ?thesis
        unfolding eq c_def[symmetric] using IH up by simp
    qed
  qed
qed

lemma make_request_loop_succeeds:
  "k \<le> max_retries \<Longrightarrow> retries \<le> k \<Longrightarrow> calls s = retries \<Longrightarrow>
   \<forall>i. retries \<le> i \<and> i < k \<longrightarrow> fails_transiently (srv i) \<Longrightarrow>
   request_attempt (srv k) = Inr r \<Longrightarrow>
   fst (make_request_loop max_retries srv retries le s) = Inr r \<and>
   calls (snd (make_request_loop max_retries srv retries le s)) = k + 1"
proof (induction "k - retries" arbitrary: retries le s)
  case 0
  then have "retries = k" by simp
  with 0 show ?case by (subst (1 2) make_request_loop.simps) simp
next
  case (Suc d)
  then have lt: "retries < k" by simp
  with Suc.prems have "fails_transiently (srv retries)" by simp
  then obtain e where e: "request_attempt (srv retries) = Inl e" "is_request_exception e"
    by (auto simp: fails_transiently_def split: sum.splits)
  let ?s = "s\<lparr>calls := calls s + 1, slept := slept s @ [2 ^ (retries + 1 - 1) * 0.5]\<rparr>"
  have eq: "make_request_loop max_retries srv retries le s =
            make_request_loop max_retries srv (retries + 1) (Some e) ?s"
    using e lt Suc.prems by (subst make_request_loop.simps) simp
  have "fst (make_request_loop max_retries srv (retries + 1) (Some e) ?s) = Inr r \<and>
        calls (snd (make_request_loop max_retries srv (retries + 1) (Some e) ?s)) = k + 1"
    using Suc.hyps(2) Suc.prems lt by (intro Suc.hyps(1)) auto
  then show ?case unfolding eq .
qed

lemma make_request_loop_exhausts:
  "retries \<le> max_retries \<Longrightarrow> calls s = retries \<Longrightarrow>
   \<forall>i. retries \<le> i \<and> i \<le> max_retries \<longrightarrow> fails_transiently (srv i) \<Longrightarrow>
   fst (make_request_loop max_retries srv retries le s) = request_attempt (srv max_retries) \<and>
   calls (snd (make_request_loop max_retries srv retries le s)) = max_retries + 1"
proof (induction "max_retries - retries" arbitrary: retries le s)
  case 0
  then have r: "retries = max_retries" by simp
  with 0 have "fails_transiently (srv max_retries)" by simp
  then obtain e where e: "request_attempt (srv max_retries) = Inl e" "is_request_exception e"
    by (auto simp: fails_transiently_def split: sum.splits)
  with r 0 show ?case by (subst (1 2) make_request_loop.simps) simp
next
  case (Suc d)
  then have lt: "retries < max_retries" by simp
  with Suc.prems have "fails_transiently (srv retries)" by simp
  then obtain e where e: "request_attempt (srv retries) = Inl e" "is_request_exception e"
    by (auto simp: fails_transiently_def split: sum.splits)
  let ?s = "s\<lparr>calls := calls s + 1, slept := slept s @ [2 ^ (retries + 1 - 1) * 0.5]\<rparr>"
  have eq: "make_request_loop max_retries srv retries le s =
            make_request_loop max_retries srv (retries + 1) (Some e) ?s"
    using e lt Suc.prems by (subst make_request_loop.simps) simp
  have "fst (make_request_loop max_retries srv (retries + 1) (Some e) ?s) = request_attempt (srv max_retries) \<and>
        calls (snd (make_request_loop max_retries srv (retries + 1) (Some e) ?s)) = max_retries + 1"
    using Suc.hyps(2) Suc.prems lt by (intro Suc.hyps(1)) auto
  then show ?case unfolding eq .
qed

lemma call_gemini_loop_bounds:
  "retries \<le> max_retries \<Longrightarrow> calls s = retries \<Longrightarrow>
   retries < calls (snd (call_gemini_loop lib max_retries srv retries le s)) \<and>
   calls (snd (call_gemini_loop lib max_retries srv retries le s)) \<le> max_retries + 1 \<and>
   slept (snd (call_gemini_loop lib max_retries srv retries le s)) =
     slept s @ map (\<lambda>j. 2 ^ j * 1.0)
       [retries ..< calls (snd (call_gemini_loop lib max_retries srv retries le s)) - 1]"
proof (induction lib max_retries srv retries le s rule: call_gemini_loop.induct)
  case (1 lib max_retries srv retries le s)
  show ?case
  proof (cases "gemini_attempt lib (srv (calls s))")
    case (Inr r)
    with 1(2,3) show ?thesis by (subst (1 2 3 4) call_gemini_loop.simps) simp
  next
    case (Inl e)
    show ?thesis
    proof (cases "is_request_exception e \<and> retries + 1 \<le> max_retries")
      case False
      with Inl 1(2,3) show ?thesis by (subst (1 2 3 4) call_gemini_loop.simps) auto
    next
      case True
      let ?s = "s\<lparr>calls := calls s + 1, slept := slept s @ [2 ^ (retries + 1 - 1) * 1.0]\<rparr>"
      have eq: "call_gemini_loop lib max_retries srv retries le s =
                call_gemini_loop lib max_retries srv (retries + 1) (Some e) ?s"
        using True Inl 1(2) by (subst call_gemini_loop.simps) simp
      define c where "c = calls (snd (call_gemini_loop lib max_retries srv (retries + 1) (Some e) ?s))"
      have IH: "retries + 1 < c \<and> c \<le> max_retries + 1 \<and>
        slept (snd (call_gemini_loop lib max_retries srv (retries + 1) (Some e) ?s)) =
          slept ?s @ map (\<lambda>j. 2 ^ j * 1.0) [retries + 1 ..< c - 1]"
        unfolding c_def using "1.IH"[OF 1(2) Inl] True 1(3) by simp
      from IH have "retries + 1 < c" by (rule conjunct1)
      then have "retries < c - 1" by arith
      then have up: "[retries ..< c - 1] = retries # [retries + 1 ..< c - 1]"
        by (simp only: upt_conv_Cons Suc_eq_plus1)
      show ?thesis
        unfolding eq c_def[symmetric] using IH up by simp
    qed
  qed
qed

lemma call_gemini_loop_succeeds:
  "k \<le> max_retries \<Longrightarrow> retries \<le> k \<Longrightarrow> calls s = retries \<Longrightarrow>
   \<forall>i. retries \<le> i \<and> i < k \<longrightarrow> gemini_fails_transiently lib (srv i) \<Longrightarrow>
   gemini_attempt lib (srv k) = Inr dat \<Longrightarrow>
   fst (call_gemini_loop lib max_retries srv retries le s) = dat \<and>
   calls (snd (call_gemini_loop lib max_retries srv retries le s)) = k + 1"
proof (induction "k - retries" arbitrary: retries le s)
  case 0
  then have "retries = k" by simp
  with 0 show ?case by (subst (1 2) call_gemini_loop.simps) simp
next
  case (Suc d)
  then have lt: "retries < k" by simp
  with Suc.prems have "gemini_fails_transiently lib (srv retries)" by simp
  then obtain e where e: "gemini_attempt lib (srv retries) = Inl e" "is_request_exception e"
    by (auto simp: gemini_fails_transiently_def split: sum.splits)
  let ?s = "s\<lparr>calls := calls s + 1, slept := slept s @ [2 ^ (retries + 1 - 1) * 1.0]\<rparr>"
  have eq: "call_gemini_loop lib max_retries srv retries le s =
            call_gemini_loop lib max_retries srv (retries + 1) (Some e) ?s"
    using e lt Suc.prems by (subst call_gemini_loop.simps) simp
  have "fst (call_gemini_loop lib max_retries srv (retries + 1) (Some e) ?s) = dat \<and>
        calls (snd (call_gemini_loop lib max_retries srv (retries + 1) (Some e) ?s)) = k + 1"
    using Suc.hyps(2) Suc.prems lt by (intro Suc.hyps(1)) auto
  then show ?case unfolding eq .
qed

lemma call_gemini_loop_exhausts:
  "retries \<le> max_retries \<Longrightarrow> calls s = retries \<Longrightarrow>
   \<forall>i. retries \<le> i \<and> i \<le> max_retries \<longrightarrow> gemini_fails_transiently lib (srv i) \<Longrightarrow>
   gemini_attempt lib (srv max_retries) = Inl x \<Longrightarrow>
   fst (call_gemini_loop lib max_retries srv retries le s) =
     error_dict (''LLM API failed after retries: '' @ exc_text x) \<and>
   calls (snd (call_gemini_loop lib max_retries srv retries le s)) = max_retries + 1"
proof (induction "max_retries - retries" arbitrary: retries le s)
  case 0
  then have r: "retries = max_retries" by simp
  with 0 have "gemini_fails_transiently lib (srv max_retries)" by simp
  then obtain e where e: "gemini_attempt lib (srv max_retries) = Inl e" "is_request_exception e"
    by (auto simp: gemini_fails_transiently_def split: sum.splits)
  with r 0 show ?case by (subst (1 2) call_gemini_loop.simps) simp
next
  case (Suc d)
  then have lt: "retries < max_retries" by simp
  with Suc.prems have "gemini_fails_transiently lib (srv retries)" by simp
  then obtain e where e: "gemini_attempt lib (srv retries) = Inl e" "is_request_exception e"
    by (auto simp: gemini_fails_transiently_def split: sum.splits)
  let ?s = "s\<lparr>calls := calls s + 1, slept := slept s @ [2 ^ (retries + 1 - 1) * 1.0]\<rparr>"
  have eq: "call_gemini_loop lib max_retries srv retries le s =
            call_gemini_loop lib max_retries srv (retries + 1) (Some e) ?s"
    using e lt Suc.prems by (subst call_gemini_loop.simps) simp
  have "fst (call_gemini_loop lib max_retries srv (retries + 1) (Some e) ?s) =
          error_dict (''LLM API failed after retries: '' @ exc_text x) \<and>
        calls (snd (call_gemini_loop lib max_retries srv (retries + 1) (Some e) ?s)) = max_retries + 1"
    using Suc.hyps(2) Suc.prems lt by (intro Suc.hyps(1)) auto
  then show ?case unfolding eq .
qed

text \<open>
  Claim C2, as the code has it. For every retry ceiling and every behaviour of the
  provider, each wrapper makes at most \<open>max_retries + 1\<close> attempts, and the waits it
  sleeps between consecutive attempts are \<open>0.5 * 2 ^ (attempt - 1)\<close> seconds for the recipe
  and delivery calls and \<open>1.0 * 2 ^ (attempt - 1)\<close> seconds for the reasoning calls. A call
  whose first \<open>k\<close> attempts fail transiently and whose next attempt, within the
  allowance, succeeds returns that attempt's result. When every attempt fails
  transiently, the wrapper of the recipe and delivery calls raises the error of the last
  attempt itself, while the wrapper of the reasoning calls raises nothing: it returns
  an error dictionary whose message is \<open>LLM API failed after retries:\<close> followed by the
  text of the last error. The ceilings in force are 1 and 2.
\<close>

theorem retry_wrappers:
  "calls (snd (make_request_loop max_retries srv 0 None io_start)) \<le> max_retries + 1 \<and>
   slept (snd (make_request_loop max_retries srv 0 None io_start)) =
     backoff 0.5 (calls (snd (make_request_loop max_retries srv 0 None io_start)) - 1) \<and>
   (\<forall>k r. k \<le> max_retries \<and> (\<forall>i<k. fails_transiently (srv i)) \<and> request_attempt (srv k) = Inr r
      \<longrightarrow> fst (make_request_loop max_retries srv 0 None io_start) = Inr r \<and>
          calls (snd (make_request_loop max_retries srv 0 None io_start)) = k + 1) \<and>
   (\<forall>e. (\<forall>i\<le>max_retries. fails_transiently (srv i)) \<and> request_attempt (srv max_retries) = Inl e
      \<longrightarrow> fst (make_request_loop max_retries srv 0 None io_start) = Inl e \<and>
          calls (snd (make_request_loop max_retries srv 0 None io_start)) = max_retries + 1) \<and>
   calls (snd (call_gemini_loop lib max_retries srv 0 None io_start)) \<le> max_retries + 1 \<and>
   slept (snd (call_gemini_loop lib max_retries srv 0 None io_start)) =
     backoff 1.0 (calls (snd (call_gemini_loop lib max_retries srv 0 None io_start)) - 1) \<and>
   (\<forall>k d. k \<le> max_retries \<and> (\<forall>i<k. gemini_fails_transiently lib (srv i)) \<and>
        gemini_attempt lib (srv k) = Inr d
      \<longrightarrow> fst (call_gemini_loop lib max_retries srv 0 None io_start) = d \<and>
          calls (snd (call_gemini_loop lib max_retries srv 0 None io_start)) = k + 1) \<and>
   (\<forall>e. (\<forall>i\<le>max_retries. gemini_fails_transiently lib (srv i)) \<and>
        gemini_attempt lib (srv max_retries) = Inl e
      \<longrightarrow> fst (call_gemini_loop lib max_retries srv 0 None io_start) =
            error_dict (''LLM API failed after retries: '' @ exc_text e) \<and>
          calls (snd (call_gemini_loop lib max_retries srv 0 None io_start)) = max_retries + 1) \<and>
   make_request_with_retry srv = make_request_loop 1 srv 0 None io_start \<and>
   call_gemini_api_with_retry lib srv = call_gemini_loop lib 2 srv 0 None io_start"
proof -
  have s0: "calls io_start = 0" "slept io_start = []"
    by (simp_all add: io_start_def)
  note a = make_request_loop_bounds[of 0 max_retries io_start srv None, OF le0 s0(1)]
  note g = call_gemini_loop_bounds[of 0 max_retries io_start lib srv None, OF le0 s0(1)]
  have a1: "calls (snd (make_request_loop max_retries srv 0 None io_start)) \<le> max_retries + 1"
    using a by simp
  have a2: "slept (snd (make_request_loop max_retries srv 0 None io_start)) =
     backoff 0.5 (calls (snd (make_request_loop max_retries srv 0 None io_start)) - 1)"
    using a[THEN conjunct2, THEN conjunct2] by (simp only: s0 append_Nil backoff_upt)
  have a3: "fst (make_request_loop max_retries srv 0 None io_start) = Inr r \<and>
          calls (snd (make_request_loop max_retries srv 0 None io_start)) = k + 1"
    if "k \<le> max_retries \<and> (\<forall>i<k. fails_transiently (srv i)) \<and> request_attempt (srv k) = Inr r" for k r
    using that s0 by (intro make_request_loop_succeeds) auto
  have a4: "fst (make_request_loop max_retries srv 0 None io_start) = Inl e \<and>
          calls (snd (make_request_loop max_retries srv 0 None io_start)) = max_retries + 1"
    if "(\<forall>i\<le>max_retries. fails_transiently (srv i)) \<and> request_attempt (srv max_retries) = Inl e" for e
    using that s0 make_request_loop_exhausts[of 0 max_retries io_start srv None] by auto
  have g1: "calls (snd (call_gemini_loop lib max_retries srv 0 None io_start)) \<le> max_retries + 1"
    using g by simp
  have g2: "slept (snd (call_gemini_loop lib max_retries srv 0 None io_start)) =
     backoff 1.0 (calls (snd (call_gemini_loop lib max_retries srv 0 None io_start)) - 1)"
    using g[THEN conjunct2, THEN conjunct2] by (simp only: s0 append_Nil backoff_upt)
  have g3: "fst (call_gemini_loop lib max_retries srv 0 None io_start) = d \<and>
          calls (snd (call_gemini_loop lib max_retries srv 0 None io_start)) = k + 1"
    if "k \<le> max_retries \<and> (\<forall>i<k. gemini_fails_transiently lib (srv i)) \<and>
        gemini_attempt lib (srv k) = Inr d" for k d
    using that s0 by (intro call_gemini_loop_succeeds) auto
  have g4: "fst (call_gemini_loop lib max_retries srv 0 None io_start) =
            error_dict (''LLM API failed after retries: '' @ exc_text e) \<and>
          calls (snd (call_gemini_loop lib max_retries srv 0 None io_start)) = max_retries + 1"
    if "(\<forall>i\<le>max_retries. gemini_fails_transiently lib (srv i)) \<and>
        gemini_attempt lib (srv max_retries) = Inl e" for e
    using that s0 by (intro call_gemini_loop_exhausts) auto
  have c: "make_request_with_retry srv = make_request_loop 1 srv 0 None io_start"
    "call_gemini_api_with_retry lib srv = call_gemini_loop lib 2 srv 0 None io_start"
    by (simp_all add: make_request_with_retry_def call_gemini_api_with_retry_def
        MAX_API_RETRIES_def MAX_LLM_RETRIES_def)
  from a1 a2 a3 a4 g1 g2 g3 g4 c show ?thesis by blast
qed

theorem retry_wrappers_witness:
  "fst (make_request_with_retry flaky) = Inr ok_response \<and>
   calls (snd (make_request_with_retry flaky)) = 2 \<and>
   slept (snd (make_request_with_retry flaky)) = [0.5] \<and>
   fst (make_request_with_retry down) = Inl timeout \<and>
   fst (call_gemini_api_with_retry plain_lib down) =
     error_dict ''LLM API failed after retries: timed out'' \<and>
   slept (snd (call_gemini_api_with_retry plain_lib down)) = [1, 2]"
proof -
  note a = retry_wrappers[of 1 flaky plain_lib]
  note b = retry_wrappers[of 1 down plain_lib]
  note c = retry_wrappers[of 2 down plain_lib]
  have f0: "\<forall>i<1. fails_transiently (flaky i)"
    by (simp add: fails_transiently_def flaky_def request_attempt_def timeout_def
        is_request_exception_def)
  have f1: "request_attempt (flaky 1) = Inr ok_response"
    by (simp add: flaky_def request_attempt_def raise_for_status_def ok_response_def)
  have d0: "fails_transiently (down i)" for i
    by (simp add: fails_transiently_def down_def request_attempt_def timeout_def
        is_request_exception_def)
  have d1: "request_attempt (down 1) = Inl timeout"
    by (simp add: down_def request_attempt_def)
  have e0: "gemini_fails_transiently plain_lib (down i)" for i
    by (simp add: gemini_fails_transiently_def down_def gemini_attempt_def timeout_def
        is_request_exception_def)
  have e1: "gemini_attempt plain_lib (down 2) = Inl timeout"
    by (simp add: down_def gemini_attempt_def)
  have x: "exc_text timeout = ''timed out''"
    by (simp add: timeout_def)
  have w: "backoff 0.5 1 = [0.5]" "backoff 1.0 2 = [1, 2]"
    by (simp_all add: backoff_def upt_rec)
  from a f0 f1 have r1: "fst (make_request_loop 1 flaky 0 None io_start) = Inr ok_response \<and>
          calls (snd (make_request_loop 1 flaky 0 None io_start)) = 2"
    by force
  from a have r2: "slept (snd (make_request_loop 1 flaky 0 None io_start)) =
     backoff 0.5 (calls (snd (make_request_loop 1 flaky 0 None io_start)) - 1)"
    by blast
  from a have r3: "make_request_with_retry flaky = make_request_loop 1 flaky 0 None io_start"
    by blast
  from b d0 d1 have r4: "fst (make_request_loop 1 down 0 None io_start) = Inl timeout"
    by blast
  from b have r5: "make_request_with_retry down = make_request_loop 1 down 0 None io_start"
    by blast
  from c e0 e1 have r6: "fst (call_gemini_loop plain_lib 2 down 0 None io_start) =
            error_dict (''LLM API failed after retries: '' @ exc_text timeout) \<and>
          calls (snd (call_gemini_loop plain_lib 2 down 0 None io_start)) = 2 + 1"
    by blast
  from c have r7: "slept (snd (call_gemini_loop plain_lib 2 down 0 None io_start)) =
     backoff 1.0 (calls (snd (call_gemini_loop plain_lib 2 down 0 None io_start)) - 1)"
    by blast
  from c have r8: "call_gemini_api_with_retry plain_lib down = call_gemini_loop plain_lib 2 down 0 None io_start"
    by blast
  show ?thesis
    using r1 r2 r4 r6 r7 w x by (simp add: r3 r5 r8)
qed

text \<open>
  As stated, claim C2 fails for the reasoning calls: when the provider times out on all
  three attempts, no error is propagated; the wrapper returns a dictionary that holds a
  message, in which the class of the error is lost.
\<close>

theorem retry_wrappers_counterexample:
  "gemini_attempt plain_lib (down 2) = Inl (PyExc RequestException ''timed out'' None) \<and>
   call_gemini_api_with_retry plain_lib down =
     (PDict [(''error'', PDict [(''message'', PStr ''LLM API failed after retries: timed out'')])],
      \<lparr>calls = 3, slept = [1, 2]\<rparr>)"
  by code_simp

section \<open>Properties of the delivery gateways\<close>

lemma request_attempt_steady:
  "request_attempt (steady r i) =
     (case raise_for_status r of Some e \<Rightarrow> Inl e | None \<Rightarrow> Inr r)"
  by (simp add: request_attempt_def steady_def)

lemma raise_for_status_None: "\<not> http_error_status r \<Longrightarrow> raise_for_status r = None"
  by (auto simp: raise_for_status_def http_error_status_def)

lemma raise_for_status_Some:
  "http_error_status r \<Longrightarrow>
   \<exists>t. raise_for_status r = Some (PyExc RequestException t (Some r)) \<and>
       t = str_int (status_code r) @
           (if status_code r < 500 then '' Client Error: '' else '' Server Error: '') @
           reason r @ '' for url: '' @ url r"
  by (auto simp: raise_for_status_def http_error_status_def)

lemma make_request_steady_ok:
  assumes "\<not> http_error_status r"
  shows "fst (make_request_with_retry (steady r)) = Inr r"
proof -
  have "request_attempt (steady r 0) = Inr r"
    using assms by (simp add: request_attempt_steady raise_for_status_None)
  then show ?thesis
    unfolding make_request_with_retry_def
    using make_request_loop_succeeds[of 0 MAX_API_RETRIES 0 io_start "steady r" r None]
    by (simp add: io_start_def)
qed

lemma make_request_steady_error:
  assumes "http_error_status r"
  shows "\<exists>e. fst (make_request_with_retry (steady r)) = Inl e \<and> raise_for_status r = Some e"
proof -
  obtain t where t: "raise_for_status r = Some (PyExc RequestException t (Some r))"
    using raise_for_status_Some[OF assms] by blast
  then have a: "request_attempt (steady r i) = Inl (PyExc RequestException t (Some r))" for i
    by (simp add: request_attempt_steady)
  then have "fails_transiently (steady r i)" for i
    by (simp add: fails_transiently_def is_request_exception_def)
  then have "fst (make_request_loop MAX_API_RETRIES (steady r) 0 None io_start) =
        request_attempt (steady r MAX_API_RETRIES)"
    using make_request_loop_exhausts[of 0 MAX_API_RETRIES io_start "steady r" None]
    by (simp add: io_start_def)
  with a t show ?thesis
    by (simp add: make_request_with_retry_def)
qed

lemma telegram_failure_success: "success (telegram_failure e) = False"
  by (simp add: telegram_failure_def Let_def)

lemma sendgrid_failure_success: "success (sendgrid_failure e) = False"
  by (simp add: sendgrid_failure_def Let_def)

lemma telegram_success_response:
  "configured (telegram_bot keys) \<Longrightarrow> fst (make_request_with_retry srv) = Inr r \<Longrightarrow>
   success (send_telegram_message lib keys srv chat_id) = payload_ok r"
  by (auto simp: send_telegram_message_def payload_ok_def py_get_def telegram_failure_success
      split: sum.splits pyval.splits option.splits prod.splits)

lemma telegram_success_raise:
  "fst (make_request_with_retry srv) = Inl e \<Longrightarrow>
   success (send_telegram_message lib keys srv chat_id) = False"
  by (simp add: send_telegram_message_def telegram_failure_success)

lemma sendgrid_success_response:
  "configured (sendgrid keys) \<Longrightarrow> configured (sendgrid_sender keys) \<Longrightarrow>
   fst (make_request_with_retry srv) = Inr r \<Longrightarrow>
   success (send_sendgrid_email keys srv to_email) = (status_code r = 202) \<and>
   (status_code r \<noteq> 202 \<longrightarrow>
      message (send_sendgrid_email keys srv to_email) =
        get_error_message ''SENDGRID_ERROR''
          (sendgrid_error_detail r to_email (the (sendgrid_sender keys))))"
  by (simp add: send_sendgrid_email_def)

lemma sendgrid_raise:
  "configured (sendgrid keys) \<Longrightarrow> configured (sendgrid_sender keys) \<Longrightarrow>
   fst (make_request_with_retry srv) = Inl e \<Longrightarrow>
   send_sendgrid_email keys srv to_email = sendgrid_failure e"
  by (simp add: send_sendgrid_email_def)

lemma sendgrid_failure_body:
  "raise_for_status r = Some e \<Longrightarrow>
   raise_for_status (r\<lparr>body_text := t, body_json := j\<rparr>) = Some e' \<Longrightarrow>
   sendgrid_failure e = sendgrid_failure e'"
  by (auto simp: raise_for_status_def sendgrid_failure_def is_request_exception_def
      error_status_def Let_def split: if_splits)

lemma error_messages_payload:
  "error_messages (map (\<lambda>m. PDict [(''message'', PStr m)]) ms) = Inr (map PStr ms)"
  by (induction ms) (simp_all add: py_get_def)

lemma all_strings_map: "all_strings (map PStr ms) = Some ms"
  by (induction ms) simp_all

lemma sendgrid_detail_not_json:
  "sendgrid_error_detail (r\<lparr>body_json := Inl x\<rparr>) to_email sender_email =
     ''SendGrid returned status '' @ str_int (status_code r)"
  by (simp add: sendgrid_error_detail_def)

lemma sendgrid_detail_errors:
  "ms \<noteq> [] \<Longrightarrow>
   sendgrid_error_detail (r\<lparr>body_json := Inr (errors_payload ms)\<rparr>) to_email sender_email =
     detail_of_messages ms to_email sender_email"
  by (simp add: sendgrid_error_detail_def errors_payload_def py_get_def py_iter_def
      error_messages_payload all_strings_map detail_of_messages_def)

lemma sendgrid_error_message:
  "d \<noteq> [] \<Longrightarrow> get_error_message ''SENDGRID_ERROR'' d = ''Error sending email via SendGrid: '' @ d"
  by (simp add: get_error_message_def error_template_def ERROR_MESSAGES_def)

lemma detail_of_messages_differs:
  "detail_of_messages ms to_email sender_email \<noteq> ''SendGrid returned status '' @ n"
  apply (simp only: detail_of_messages_def)
  apply (simp split: if_splits)
  done

lemma detail_of_messages_nonempty:
  "detail_of_messages ms to_email sender_email \<noteq> []"
  by (simp add: detail_of_messages_def)


lemma sendgrid_message_differs:
  "get_error_message ''SENDGRID_ERROR'' (detail_of_messages ms to_email sender_email) \<noteq>
   get_error_message ''SENDGRID_ERROR'' (''SendGrid returned status '' @ n)"
proof -
  have a: "get_error_message ''SENDGRID_ERROR'' (detail_of_messages ms to_email sender_email) =
      ''Error sending email via SendGrid: '' @ detail_of_messages ms to_email sender_email"
    by (rule sendgrid_error_message) (rule detail_of_messages_nonempty)
  have b: "get_error_message ''SENDGRID_ERROR'' (''SendGrid returned status '' @ n) =
      ''Error sending email via SendGrid: '' @ (''SendGrid returned status '' @ n)"
    by (rule sendgrid_error_message) simp
  show ?thesis
    unfolding a b same_append_eq by (rule detail_of_messages_differs)
qed

text \<open>
  Claim C7, as the code has it. With the bot token configured, chat delivery succeeds
  exactly when the retry wrapper returns a response and the payload of that response
  reports success through its \<open>ok\<close> entry; since the wrapper raises for a status from
  400 to 599, a provider that always answers with the same response gives success exactly
  when the status is outside that range and the payload reports \<open>ok\<close>. With the key and
  the sender configured, email delivery succeeds exactly when the wrapper returns a
  response of status 202; against a steady provider that is exactly status 202. Any
  other status is a failure. For a status outside 400 to 599, other 2xx included, the
  detail is read from the response body: a body that is not JSON gives the detail
  \<open>SendGrid returned status\<close> with the status, a body that lists errors gives the detail
  read from their messages, and the two messages differ, so the body decides. For a
  status from 400 to 599 the detail comes from the status and the error text, and the
  body plays no part.
\<close>

theorem delivery_success_criteria:
  "(configured (telegram_bot keys) \<longrightarrow>
      success (send_telegram_message lib keys srv chat_id) =
        (case fst (make_request_with_retry srv) of Inr r \<Rightarrow> payload_ok r | Inl e \<Rightarrow> False) \<and>
      success (send_telegram_message lib keys (steady r) chat_id) =
        (\<not> http_error_status r \<and> payload_ok r)) \<and>
   (configured (sendgrid keys) \<and> configured (sendgrid_sender keys) \<longrightarrow>
      success (send_sendgrid_email keys srv to_email) =
        (case fst (make_request_with_retry srv) of
           Inr r \<Rightarrow> status_code r = 202
         | Inl e \<Rightarrow> False) \<and>
      success (send_sendgrid_email keys (steady r) to_email) = (status_code r = 202) \<and>
      (status_code r \<noteq> 202 \<and> \<not> http_error_status r \<longrightarrow>
         message (send_sendgrid_email keys (steady r) to_email) =
           get_error_message ''SENDGRID_ERROR''
             (sendgrid_error_detail r to_email (the (sendgrid_sender keys))) \<and>
         (\<forall>x. message (send_sendgrid_email keys (steady (r\<lparr>body_json := Inl x\<rparr>)) to_email) =
                get_error_message ''SENDGRID_ERROR''
                  (''SendGrid returned status '' @ str_int (status_code r))) \<and>
         (\<forall>ms. ms \<noteq> [] \<longrightarrow>
                message (send_sendgrid_email keys
                           (steady (r\<lparr>body_json := Inr (errors_payload ms)\<rparr>)) to_email) =
                get_error_message ''SENDGRID_ERROR''
                  (detail_of_messages ms to_email (the (sendgrid_sender keys)))) \<and>
         (\<forall>x ms. ms \<noteq> [] \<longrightarrow>
                message (send_sendgrid_email keys
                           (steady (r\<lparr>body_json := Inr (errors_payload ms)\<rparr>)) to_email) \<noteq>
                message (send_sendgrid_email keys (steady (r\<lparr>body_json := Inl x\<rparr>)) to_email))) \<and>
      (http_error_status r \<longrightarrow>
         (\<forall>t j. send_sendgrid_email keys (steady (r\<lparr>body_text := t, body_json := j\<rparr>)) to_email =
                send_sendgrid_email keys (steady r) to_email)))"
proof (intro conjI impI)
  assume k: "configured (telegram_bot keys)"
  show "success (send_telegram_message lib keys srv chat_id) =
        (case fst (make_request_with_retry srv) of Inr r \<Rightarrow> payload_ok r | Inl e \<Rightarrow> False)"
    using k by (cases "fst (make_request_with_retry srv)")
      (simp_all add: telegram_success_response telegram_success_raise)
  show "success (send_telegram_message lib keys (steady r) chat_id) =
        (\<not> http_error_status r \<and> payload_ok r)"
  proof (cases "http_error_status r")
    case False
    then show ?thesis
      using k telegram_success_response[OF k make_request_steady_ok[OF False]] by simp
  next
    case True
    then show ?thesis
      using make_request_steady_error[OF True] by (auto simp: telegram_success_raise)
  qed
next
  assume k: "configured (sendgrid keys) \<and> configured (sendgrid_sender keys)"
  then have k1: "configured (sendgrid keys)" and k2: "configured (sendgrid_sender keys)"
    by simp_all
  show "success (send_sendgrid_email keys srv to_email) =
        (case fst (make_request_with_retry srv) of
           Inr r \<Rightarrow> status_code r = 202
         | Inl e \<Rightarrow> False)"
    using k1 k2 by (cases "fst (make_request_with_retry srv)")
      (simp_all add: sendgrid_success_response sendgrid_raise sendgrid_failure_success)
  show "success (send_sendgrid_email keys (steady r) to_email) = (status_code r = 202)"
  proof (cases "http_error_status r")
    case False
    then show ?thesis
      using sendgrid_success_response[OF k1 k2 make_request_steady_ok[OF False]] by simp
  next
    case True
    then have "status_code r \<noteq> 202" by (auto simp: http_error_status_def)
    then show ?thesis
      using make_request_steady_error[OF True] k1 k2
      by (auto simp: sendgrid_raise sendgrid_failure_success)
  qed
next
  assume k: "configured (sendgrid keys) \<and> configured (sendgrid_sender keys)"
    and s: "status_code r \<noteq> 202 \<and> \<not> http_error_status r"
  have m: "message (send_sendgrid_email keys (steady r') to_email) =
           get_error_message ''SENDGRID_ERROR''
             (sendgrid_error_detail r' to_email (the (sendgrid_sender keys)))"
    if "status_code r' = status_code r" for r'
  proof -
    from that s have "status_code r' \<noteq> 202" "\<not> http_error_status r'"
      by (simp_all add: http_error_status_def)
    with k show ?thesis
      using sendgrid_success_response[of keys "steady r'" r' to_email] make_request_steady_ok[of r']
      by simp
  qed
  show "message (send_sendgrid_email keys (steady r) to_email) =
           get_error_message ''SENDGRID_ERROR''
             (sendgrid_error_detail r to_email (the (sendgrid_sender keys)))"
    by (rule m) simp
  have n: "message (send_sendgrid_email keys (steady (r\<lparr>body_json := Inl x\<rparr>)) to_email) =
                get_error_message ''SENDGRID_ERROR''
                  (''SendGrid returned status '' @ str_int (status_code r))" for x
    by (simp only: m[of "r\<lparr>body_json := Inl x\<rparr>", simplified] sendgrid_detail_not_json)
  have e: "message (send_sendgrid_email keys
                           (steady (r\<lparr>body_json := Inr (errors_payload ms)\<rparr>)) to_email) =
                get_error_message ''SENDGRID_ERROR''
                  (detail_of_messages ms to_email (the (sendgrid_sender keys)))"
    if "ms \<noteq> []" for ms
    by (simp only: m[of "r\<lparr>body_json := Inr (errors_payload ms)\<rparr>", simplified]
        sendgrid_detail_errors[OF that])
  show "\<forall>x. message (send_sendgrid_email keys (steady (r\<lparr>body_json := Inl x\<rparr>)) to_email) =
                get_error_message ''SENDGRID_ERROR''
                  (''SendGrid returned status '' @ str_int (status_code r))"
    using n by (rule allI)
  show "\<forall>ms. ms \<noteq> [] \<longrightarrow>
                message (send_sendgrid_email keys
                           (steady (r\<lparr>body_json := Inr (errors_payload ms)\<rparr>)) to_email) =
                get_error_message ''SENDGRID_ERROR''
                  (detail_of_messages ms to_email (the (sendgrid_sender keys)))"
    using e by blast
  show "\<forall>x ms. ms \<noteq> [] \<longrightarrow>
                message (send_sendgrid_email keys
                           (steady (r\<lparr>body_json := Inr (errors_payload ms)\<rparr>)) to_email) \<noteq>
                message (send_sendgrid_email keys (steady (r\<lparr>body_json := Inl x\<rparr>)) to_email)"
  proof (intro allI impI)
    fix x ms
    assume ms: "ms \<noteq> ([] :: string list)"
    show "message (send_sendgrid_email keys
                           (steady (r\<lparr>body_json := Inr (errors_payload ms)\<rparr>)) to_email) \<noteq>
                message (send_sendgrid_email keys (steady (r\<lparr>body_json := Inl x\<rparr>)) to_email)"
      unfolding n e[OF ms] by (rule sendgrid_message_differs)
  qed
next
  assume k: "configured (sendgrid keys) \<and> configured (sendgrid_sender keys)"
    and h: "http_error_status r"
  show "\<forall>t j. send_sendgrid_email keys (steady (r\<lparr>body_text := t, body_json := j\<rparr>)) to_email =
                send_sendgrid_email keys (steady r) to_email"
  proof (intro allI)
    fix t j
    let ?r = "r\<lparr>body_text := t, body_json := j\<rparr>"
    have h': "http_error_status ?r" using h by (simp add: http_error_status_def)
    obtain e where e: "fst (make_request_with_retry (steady r)) = Inl e" "raise_for_status r = Some e"
      using make_request_steady_error[OF h] by blast
    obtain e' where e': "fst (make_request_with_retry (steady ?r)) = Inl e'" "raise_for_status ?r = Some e'"
      using make_request_steady_error[OF h'] by blast
    show "send_sendgrid_email keys (steady ?r) to_email = send_sendgrid_email keys (steady r) to_email"
      using k e e' sendgrid_failure_body[OF e(2) e'(2)] by (simp add: sendgrid_raise)
  qed
qed

theorem delivery_success_criteria_witness:
  "success (send_telegram_message plain_lib all_keys (steady (json_response 200 ok_payload)) ''42'') \<and>
   \<not> success (send_telegram_message plain_lib all_keys (steady (json_response 404 ok_payload)) ''42'') \<and>
   success (send_sendgrid_email all_keys (steady (json_response 202 PNone)) ''a@b.c'') \<and>
   \<not> success (send_sendgrid_email all_keys (steady (json_response 200 PNone)) ''a@b.c'') \<and>
   message (send_sendgrid_email all_keys
              (steady (json_response 200 (errors_payload [''Daily quota exceeded'']))) ''a@b.c'') =
     ''Error sending email via SendGrid: SendGrid Error(s): Daily quota exceeded'' \<and>
   message (send_sendgrid_email all_keys
              (steady (json_response 200 (errors_payload [''Daily quota exceeded'']))) ''a@b.c'') \<noteq>
   message (send_sendgrid_email all_keys
              (steady ((json_response 200 PNone)\<lparr>body_json := Inl (JSONDecodeError, ''Expecting value'')\<rparr>))
              ''a@b.c'')"
proof -
  have k: "configured (telegram_bot all_keys)"
    "configured (sendgrid all_keys) \<and> configured (sendgrid_sender all_keys)"
    by (simp_all add: configured_def all_keys_def)
  have p: "payload_ok (json_response 200 ok_payload)" "payload_ok (json_response 404 ok_payload)"
    by (simp_all add: payload_ok_def json_response_def ok_payload_def)
  have h: "\<not> http_error_status (json_response 200 ok_payload)"
    "http_error_status (json_response 404 ok_payload)"
    "\<not> http_error_status (json_response 200 PNone)"
    by (simp_all add: http_error_status_def json_response_def)
  have s: "status_code (json_response 202 PNone) = 202" "status_code (json_response 200 PNone) \<noteq> 202"
    by (simp_all add: json_response_def)
  have j: "(json_response 200 PNone)\<lparr>body_json := Inr v\<rparr> = json_response 200 v" for v
    by (simp add: json_response_def)
  have d: "get_error_message ''SENDGRID_ERROR''
             (detail_of_messages [''Daily quota exceeded''] ''a@b.c'' (the (sendgrid_sender all_keys))) =
           ''Error sending email via SendGrid: SendGrid Error(s): Daily quota exceeded''"
    by code_simp
  note t = delivery_success_criteria[of all_keys plain_lib "steady (json_response 200 ok_payload)"
        "''42''" "json_response 200 PNone" "''a@b.c''"]
  from t k s h have q: "message (send_sendgrid_email all_keys
              (steady ((json_response 200 PNone)\<lparr>body_json := Inr (errors_payload [''Daily quota exceeded''])\<rparr>))
              ''a@b.c'') =
     get_error_message ''SENDGRID_ERROR''
             (detail_of_messages [''Daily quota exceeded''] ''a@b.c'' (the (sendgrid_sender all_keys)))"
    by (simp del: One_nat_def)
  from t k s h have q2: "message (send_sendgrid_email all_keys
              (steady ((json_response 200 PNone)\<lparr>body_json := Inr (errors_payload [''Daily quota exceeded''])\<rparr>))
              ''a@b.c'') \<noteq>
   message (send_sendgrid_email all_keys
              (steady ((json_response 200 PNone)\<lparr>body_json := Inl (JSONDecodeError, ''Expecting value'')\<rparr>))
              ''a@b.c'')"
    by blast
  have r: "success (send_telegram_message plain_lib all_keys (steady (json_response 200 ok_payload)) ''42'') \<and>
   \<not> success (send_telegram_message plain_lib all_keys (steady (json_response 404 ok_payload)) ''42'') \<and>
   success (send_sendgrid_email all_keys (steady (json_response 202 PNone)) ''a@b.c'') \<and>
   \<not> success (send_sendgrid_email all_keys (steady (json_response 200 PNone)) ''a@b.c'')"
    using delivery_success_criteria[of all_keys plain_lib "steady (json_response 200 ok_payload)"
        "''42''" "json_response 200 ok_payload" "''a@b.c''"]
      delivery_success_criteria[of all_keys plain_lib "steady (json_response 200 ok_payload)"
        "''42''" "json_response 404 ok_payload" "''a@b.c''"]
      delivery_success_criteria[of all_keys plain_lib "steady (json_response 200 ok_payload)"
        "''42''" "json_response 202 PNone" "''a@b.c''"]
      t k p h s
    by simp
  from r q q2 show ?thesis
    by (simp only: j d) simp
qed

text \<open>
  As stated, claim C7 fails twice. For chat delivery the result does depend on the HTTP
  status: a provider that answers every attempt with status 500 and a payload whose
  \<open>ok\<close> entry is true gets a failure. For email delivery the detail of a failure is not
  always read from the body: with status 400 and a body that lists an error about the
  address, the message reports the status, while the same body with status 200 gives the
  message about the address.
\<close>

theorem delivery_success_criteria_counterexample:
  "payload_ok (json_response 500 ok_payload) \<and>
   \<not> success (send_telegram_message plain_lib all_keys (steady (json_response 500 ok_payload)) ''42'') \<and>
   message (send_sendgrid_email all_keys
              (steady (json_response 400 (errors_payload [''Does not contain a valid email address.''])))
              ''a@b.c'') =
     ''Error sending email via SendGrid: Status 400: 400 Client Error: - for url: https://provider.example/'' \<and>
   message (send_sendgrid_email all_keys
              (steady (json_response 200 (errors_payload [''Does not contain a valid email address.''])))
              ''a@b.c'') =
     ''Error sending email via SendGrid: Invalid recipient email format '' @ [CHR 0x27] @ ''a@b.c'' @ [CHR 0x27] @ ''.''"
  by code_simp

section \<open>Properties of the pipelines\<close>

lemma get_error_message_nonempty:
  "get_error_message ''SPOONACULAR_ERROR'' d \<noteq> []"
  "get_error_message ''GENERAL_ERROR'' d \<noteq> []"
  "get_error_message ''MISSING_API_KEY'' ''Spoonacular'' \<noteq> []"
  by (cases d; simp add: get_error_message_def error_template_def ERROR_MESSAGES_def Let_def)+

lemma details_failure_error:
  "\<exists>m. api_error (details_failure rid e) = Some m \<and> m \<noteq> []"
  by (simp add: details_failure_def Let_def get_error_message_nonempty)

lemma recipes_failure_error:
  "\<exists>m. api_error (recipes_failure e) = Some m \<and> m \<noteq> []"
  by (simp add: recipes_failure_def Let_def get_error_message_nonempty)

lemma fetch_details_error:
  "api_error (fetch_spoonacular_details lib keys srv rid) \<noteq> None \<Longrightarrow>
   has_error (api_error (fetch_spoonacular_details lib keys srv rid))"
proof -
  have m: "has_error (Some (get_error_message ''MISSING_API_KEY'' ''Spoonacular''))"
    by (simp add: has_error_def get_error_message_nonempty)
  have f: "has_error (api_error (details_failure rid e))" for e
    using details_failure_error[of rid e] by (auto simp: has_error_def)
  assume "api_error (fetch_spoonacular_details lib keys srv rid) \<noteq> None"
  then show ?thesis
    using m f by (auto simp: fetch_spoonacular_details_def split: if_splits sum.splits prod.splits)
qed

lemma fetch_details_causes:
  "\<not> configured (spoonacular keys) \<or> (\<exists>e. fst (make_request_with_retry srv) = Inl e) \<or>
   (\<exists>r c t. fst (make_request_with_retry srv) = Inr r \<and> body_json r = Inl (c, t)) \<Longrightarrow>
   api_error (fetch_spoonacular_details lib keys srv rid) \<noteq> None"
proof -
  have f: "api_error (details_failure rid e) \<noteq> None" for e
    using details_failure_error[of rid e] by auto
  assume "\<not> configured (spoonacular keys) \<or> (\<exists>e. fst (make_request_with_retry srv) = Inl e) \<or>
   (\<exists>r c t. fst (make_request_with_retry srv) = Inr r \<and> body_json r = Inl (c, t))"
  then show ?thesis
    using f by (auto simp: fetch_spoonacular_details_def)
qed

lemma map_of_set_item: "map_of (set_item kvs k v) k = Some v"
  by (induction kvs k v rule: set_item.induct) auto

lemma keys_set_item: "k \<in> fst ` set (set_item kvs k v)"
  by (induction kvs k v rule: set_item.induct) auto

lemma map_of_key: "map_of kvs k = Some v \<Longrightarrow> k \<in> fst ` set kvs"
  by (rule map_of_SomeD[THEN rev_image_eqI]) simp_all

lemma fallback_has_base:
  "take 3 (generate_fallback_ingredients title) = base_estimates \<and>
   generate_fallback_ingredients title \<noteq> []"
  by (simp add: generate_fallback_eq base_estimates_def)

lemma steady_ok_response:
  "fst (make_request_with_retry (steady (json_response 200 v))) = Inr (json_response 200 v)"
proof -
  have "request_attempt (steady (json_response 200 v) 0) = Inr (json_response 200 v)"
    by (simp add: request_attempt_def steady_def raise_for_status_def json_response_def)
  then show ?thesis
    by (simp add: make_request_with_retry_def make_request_loop.simps[of _ _ 0] io_start_def)
qed

text \<open>
  Claim C5, as the code has it. When the reasoning result does not flag invalid
  ingredients and the provider call succeeds with an empty list of matches, the response
  of the find-recipes pipeline has \<open>recipes = []\<close>, a list and not null, and carries the
  message \<open>No recipes found matching your ingredients and preferences.\<close> in its
  \<open>error\<close> field, the only field of the response that holds a message.
\<close>

theorem find_recipes_no_matches:
  "configured (spoonacular keys) \<and> fst (make_request_with_retry srv) = Inr r \<and>
   body_json r = Inr (PList []) \<and> \<not> flags_invalid_ingredients llm_result
   \<longrightarrow> process_find_recipes lib keys llm_result srv request =
         \<lparr>recipes = Some [],
          fr_error = Some ''No recipes found matching your ingredients and preferences.'',
          fr_llm_prompt = prompt llm_result,
          fr_metadata = Some (metadata llm_result)\<rparr>"
proof
  assume a: "configured (spoonacular keys) \<and> fst (make_request_with_retry srv) = Inr r \<and>
   body_json r = Inr (PList []) \<and> \<not> flags_invalid_ingredients llm_result"
  then have f: "fetch_spoonacular_recipes keys srv = \<lparr>data = PList [], api_error = None\<rparr>"
    by (simp add: fetch_spoonacular_recipes_def)
  from a have n: "\<not> ((case llm_error llm_result of
            None \<Rightarrow> False
          | Some e \<Rightarrow> e \<noteq> [] \<and> str_in ''LLM identified issues'' e) \<and>
         str_in ''Invalid ingredients'' (errors (metadata llm_result)))"
    by (simp add: flags_invalid_ingredients_def)
  show "process_find_recipes lib keys llm_result srv request =
         \<lparr>recipes = Some [],
          fr_error = Some ''No recipes found matching your ingredients and preferences.'',
          fr_llm_prompt = prompt llm_result,
          fr_metadata = Some (metadata llm_result)\<rparr>"
    unfolding process_find_recipes_def using n by (simp add: f has_error_def Let_def)
qed

theorem find_recipes_no_matches_witness:
  "process_find_recipes plain_lib all_keys quiet_llm (steady (json_response 200 (PList []))) chicken_rice =
     \<lparr>recipes = Some [],
      fr_error = Some ''No recipes found matching your ingredients and preferences.'',
      fr_llm_prompt = prompt quiet_llm,
      fr_metadata = Some (metadata quiet_llm)\<rparr>"
proof -
  have k: "configured (spoonacular all_keys)"
    by (simp add: configured_def all_keys_def)
  have b: "body_json (json_response 200 (PList [])) = Inr (PList [])"
    by (simp add: json_response_def)
  have q: "\<not> flags_invalid_ingredients quiet_llm"
    by (simp add: flags_invalid_ingredients_def quiet_llm_def)
  show ?thesis
    using find_recipes_no_matches[of all_keys "steady (json_response 200 (PList []))"
        "json_response 200 (PList [])" quiet_llm plain_lib chicken_rice]
      k b q steady_ok_response[of "PList []"]
    by simp
qed

text \<open>
  As stated, claim C5 fails: with zero matches the list of recipes is empty, but the
  \<open>error\<close> field of the response is not null; it holds the no-matches message.
\<close>

theorem find_recipes_no_matches_counterexample:
  "recipes (process_find_recipes plain_lib all_keys quiet_llm
      (steady (json_response 200 (PList []))) chicken_rice) = Some [] \<and>
   fr_error (process_find_recipes plain_lib all_keys quiet_llm
      (steady (json_response 200 (PList []))) chicken_rice) \<noteq> None"
  by code_simp

text \<open>
  Claim C6. In the missing-ingredients pipeline, a recipe-detail call that fails (no
  credential, an exception out of the retry wrapper, a body that is not JSON) returns an
  error, and whenever the call returns an error the pipeline does not abort: it returns
  the fallback response, built from the title, whose error is
  \<open>Could not retrieve exact recipe ingredients:\<close> followed by the error of the call.
  When the call succeeds and the extraction of the ingredients raises, the pipeline
  returns the fallback response whose error is \<open>Error processing recipe ingredients:\<close>
  followed by the text of the exception. A fallback response has \<open>isEstimate = True\<close>
  and the estimates of the fallback generator, which begin with the three base
  estimates and so are not empty.
\<close>

theorem missing_ingredients_fallback:
  "(\<not> configured (spoonacular keys) \<or> (\<exists>e. fst (make_request_with_retry srv) = Inl e) \<or>
    (\<exists>r c t. fst (make_request_with_retry srv) = Inr r \<and> body_json r = Inl (c, t))
    \<longrightarrow> api_error (fetch_spoonacular_details lib keys srv (recipeId request)) \<noteq> None) \<and>
   (api_error (fetch_spoonacular_details lib keys srv (recipeId request)) \<noteq> None
    \<longrightarrow> process_get_missing_ingredients lib keys llm_result srv request =
          Inr (fallback_response llm_result (recipeTitle request)
                 (''Could not retrieve exact recipe ingredients: '' @
                  the (api_error (fetch_spoonacular_details lib keys srv (recipeId request)))))) \<and>
   (\<forall>e. api_error (fetch_spoonacular_details lib keys srv (recipeId request)) = None \<and>
        extract_required lib (data (fetch_spoonacular_details lib keys srv (recipeId request))) = Inl e
    \<longrightarrow> process_get_missing_ingredients lib keys llm_result srv request =
          Inr (fallback_response llm_result (recipeTitle request)
                 (''Error processing recipe ingredients: '' @ exc_text e))) \<and>
   isEstimate (fallback_response llm_result (recipeTitle request) err) \<and>
   missingIngredients (fallback_response llm_result (recipeTitle request) err) =
     Some (generate_fallback_ingredients (recipeTitle request)) \<and>
   take 3 (generate_fallback_ingredients (recipeTitle request)) = base_estimates \<and>
   generate_fallback_ingredients (recipeTitle request) \<noteq> []"
proof (intro conjI impI allI)
  assume "\<not> configured (spoonacular keys) \<or> (\<exists>e. fst (make_request_with_retry srv) = Inl e) \<or>
    (\<exists>r c t. fst (make_request_with_retry srv) = Inr r \<and> body_json r = Inl (c, t))"
  then show "api_error (fetch_spoonacular_details lib keys srv (recipeId request)) \<noteq> None"
    by (rule fetch_details_causes)
next
  assume "api_error (fetch_spoonacular_details lib keys srv (recipeId request)) \<noteq> None"
  then have "has_error (api_error (fetch_spoonacular_details lib keys srv (recipeId request)))"
    by (rule fetch_details_error)
  then show "process_get_missing_ingredients lib keys llm_result srv request =
          Inr (fallback_response llm_result (recipeTitle request)
                 (''Could not retrieve exact recipe ingredients: '' @
                  the (api_error (fetch_spoonacular_details lib keys srv (recipeId request)))))"
    by (simp add: process_get_missing_ingredients_def fallback_response_def Let_def)
next
  fix e
  assume "api_error (fetch_spoonacular_details lib keys srv (recipeId request)) = None \<and>
        extract_required lib (data (fetch_spoonacular_details lib keys srv (recipeId request))) = Inl e"
  then show "process_get_missing_ingredients lib keys llm_result srv request =
          Inr (fallback_response llm_result (recipeTitle request)
                 (''Error processing recipe ingredients: '' @ exc_text e))"
    by (simp add: process_get_missing_ingredients_def fallback_response_def Let_def has_error_def)
next
  show "isEstimate (fallback_response llm_result (recipeTitle request) err)"
    by (simp add: fallback_response_def)
  show "missingIngredients (fallback_response llm_result (recipeTitle request) err) =
     Some (generate_fallback_ingredients (recipeTitle request))"
    by (simp add: fallback_response_def)
  show "take 3 (generate_fallback_ingredients (recipeTitle request)) = base_estimates"
    using fallback_has_base by simp
  show "generate_fallback_ingredients (recipeTitle request) \<noteq> []"
    using fallback_has_base by simp
qed

theorem missing_ingredients_fallback_witness:
  "process_get_missing_ingredients plain_lib all_keys quiet_llm down soup_request =
     Inr (fallback_response quiet_llm ''Tomato Soup''
       ''Could not retrieve exact recipe ingredients: Error communicating with Spoonacular: Status 500: timed out'')"
proof -
  have e: "fst (make_request_with_retry down) = Inl timeout"
    by code_simp
  have m: "api_error (fetch_spoonacular_details plain_lib all_keys down 7) =
     Some ''Error communicating with Spoonacular: Status 500: timed out''"
    by code_simp
  have r: "recipeId soup_request = 7" "recipeTitle soup_request = ''Tomato Soup''"
    by (simp_all add: soup_request_def)
  from e have c: "\<not> configured (spoonacular all_keys) \<or>
      (\<exists>e. fst (make_request_with_retry down) = Inl e) \<or>
      (\<exists>r c t. fst (make_request_with_retry down) = Inr r \<and> body_json r = Inl (c, t))"
    by blast
  note t = missing_ingredients_fallback[of all_keys down plain_lib soup_request quiet_llm]
  from t c have "api_error (fetch_spoonacular_details plain_lib all_keys down (recipeId soup_request)) \<noteq> None"
    by blast
  with t have "process_get_missing_ingredients plain_lib all_keys quiet_llm down soup_request =
          Inr (fallback_response quiet_llm (recipeTitle soup_request)
                 (''Could not retrieve exact recipe ingredients: '' @
                  the (api_error (fetch_spoonacular_details plain_lib all_keys down (recipeId soup_request)))))"
    by blast
  then show ?thesis
    by (simp add: r m)
qed

text \<open>
  Claim C10. When the recipe-detail call succeeds and the list \<open>extendedIngredients\<close> of
  the recipe is empty, taking its first element raises \<open>IndexError\<close>, the exception is
  caught, and the pipeline returns the estimates of the fallback generator with
  \<open>isEstimate = True\<close> and the error
  \<open>Error processing recipe ingredients: list index out of range\<close>. The estimates are
  not empty: the recipe is not reported as having nothing missing.
\<close>

theorem empty_ingredient_list_falls_back:
  "configured (spoonacular keys) \<and> fst (make_request_with_retry srv) = Inr r \<and>
   body_json r = Inr (PDict kvs) \<and> map_of kvs ''extendedIngredients'' = Some (PList [])
   \<longrightarrow> process_get_missing_ingredients lib keys llm_result srv request =
         Inr \<lparr>missingIngredients = Some (generate_fallback_ingredients (recipeTitle request)),
              isEstimate = True,
              gm_error = Some ''Error processing recipe ingredients: list index out of range'',
              gm_llm_prompt = prompt llm_result,
              gm_metadata = None\<rparr> \<and>
       generate_fallback_ingredients (recipeTitle request) \<noteq> []"
proof
  assume a: "configured (spoonacular keys) \<and> fst (make_request_with_retry srv) = Inr r \<and>
   body_json r = Inr (PDict kvs) \<and> map_of kvs ''extendedIngredients'' = Some (PList [])"
  let ?d = "PDict (set_item kvs ''extendedIngredients'' (PList []))"
  from a have k: "''extendedIngredients'' \<in> fst ` set kvs"
    by (simp add: map_of_key)
  have v: "validate_ingredients lib (PDict kvs) = ?d"
    using a by (simp add: validate_ingredients_def py_get_def py_iter_def)
  have f: "fetch_spoonacular_details lib keys srv (recipeId request) = \<lparr>data = ?d, api_error = None\<rparr>"
    using a k v by (simp add: fetch_spoonacular_details_def py_contains_def)
  have x: "extract_required lib ?d = Inl (PyExc IndexError ''list index out of range'' None)"
    by (simp add: extract_required_def py_contains_def py_item_def py_first_def
        map_of_set_item keys_set_item)
  show "process_get_missing_ingredients lib keys llm_result srv request =
         Inr \<lparr>missingIngredients = Some (generate_fallback_ingredients (recipeTitle request)),
              isEstimate = True,
              gm_error = Some ''Error processing recipe ingredients: list index out of range'',
              gm_llm_prompt = prompt llm_result,
              gm_metadata = None\<rparr> \<and>
       generate_fallback_ingredients (recipeTitle request) \<noteq> []"
    using fallback_has_base
    by (simp add: process_get_missing_ingredients_def f x has_error_def Let_def)
qed

theorem empty_ingredient_list_falls_back_witness:
  "process_get_missing_ingredients plain_lib all_keys quiet_llm
     (steady (json_response 200 no_ingredients)) soup_request =
   Inr \<lparr>missingIngredients = Some (generate_fallback_ingredients ''Tomato Soup''),
        isEstimate = True,
        gm_error = Some ''Error processing recipe ingredients: list index out of range'',
        gm_llm_prompt = Some ''prompt'',
        gm_metadata = None\<rparr>"
proof -
  have k: "configured (spoonacular all_keys)"
    by (simp add: configured_def all_keys_def)
  have b: "body_json (json_response 200 no_ingredients) =
      Inr (PDict [(''title'', PStr ''Tomato Soup''), (''extendedIngredients'', PList [])])"
    by (simp add: json_response_def no_ingredients_def)
  have m: "map_of [(''title'', PStr ''Tomato Soup''), (''extendedIngredients'', PList [])]
      ''extendedIngredients'' = Some (PList [])"
    by simp
  have r: "recipeTitle soup_request = ''Tomato Soup''" "prompt quiet_llm = Some ''prompt''"
    by (simp_all add: soup_request_def quiet_llm_def)
  show ?thesis
    using empty_ingredient_list_falls_back[of all_keys "steady (json_response 200 no_ingredients)"
        "json_response 200 no_ingredients"
        "[(''title'', PStr ''Tomato Soup''), (''extendedIngredients'', PList [])]"
        plain_lib quiet_llm soup_request]
      k b m steady_ok_response[of no_ingredients]
    by (simp add: r)
qed

end
